theory Spec2Isabelle
  imports Main "HOL-Library.Word" "HOL-Library.Multiset"
begin

section \<open>The visibility manager of the persistence package\<close>

text \<open>
  The development embeds \<open>visibilityManagerImpl\<close>: the shim that turns public visibility
  requests into internal ones, hands them to the visibility store, and turns the
  store's records back into the public \<open>WorkflowExecutionInfo\<close> shape.

  Go values are modelled as follows. A pointer to a visibility record is an address into
  a heap of records (Go pointers never dangle, so the heap is total), and a pointer that
  may be nil is an \<open>option\<close>. Every other pointer of the code is to a value nobody
  writes to, and is modelled by the value itself, again under \<open>option\<close> where nil is
  possible. A nil dereference is the result \<open>Inl NilDereference\<close>. The logger is the
  list of entries written so far. A Go map that the code ranges over is the list of its
  entries, and the order in which a range visits them is a parameter, drawn anew for every
  range; a map that is only built is a partial function.
\<close>

subsection \<open>Values of the standard library and of the protocol packages\<close>

type_synonym bytes = "8 word list"

datatype error = GoError string

datatype panic = NilDereference

text \<open>
  \<open>time.Time\<close>, as far as \<open>UnixNano\<close> reads it: the seconds since the Unix epoch and the
  nanoseconds within the second. \<open>UnixNano\<close> computes in \<open>int64\<close> and wraps.
\<close>

record Time =
  unixSec :: "64 word"
  nsec :: "32 word"

definition UnixNano :: "Time \<Rightarrow> 64 word" where
  "UnixNano t = unixSec t * 1000000000 + scast (nsec t)"

record DataBlob =
  Encoding :: string
  Data :: bytes

record Memo =
  Fields :: "string \<rightharpoonup> bytes"

record SearchAttributes =
  IndexedFields :: "string \<rightharpoonup> bytes"

record WorkflowExecution =
  WorkflowId :: string
  RunId :: string

record WorkflowType =
  Name :: string

record Int64Value =
  Value :: "64 word"

text \<open>
  The public \<open>WorkflowExecutionInfo\<close>. The fields that share a name with a field of the
  internal record carry the suffix \<open>_info\<close>.
\<close>

record WorkflowExecutionInfo =
  Execution :: "WorkflowExecution option"
  Type :: "WorkflowType option"
  StartTime_info :: "Int64Value option"
  CloseTime_info :: "Int64Value option"
  CloseStatus :: "32 word"
  HistoryLength_info :: "64 word"
  ExecutionTime_info :: "64 word"
  Memo_info :: "Memo option"
  SearchAttributes_info :: "SearchAttributes option"

subsection \<open>Records of the persistence package\<close>

text \<open>
  The internal visibility record; \<open>'a\<close> is the type of the values behind
  \<open>interface{}\<close> in its search attributes. In the responses below, the fields of the
  store's responses carry the suffix \<open>_internal\<close>, and the \<open>Execution\<close> of the
  public get response the suffix \<open>_closed\<close>.
\<close>

record 'a VisibilityWorkflowExecutionInfo =
  WorkflowID :: string
  RunID :: string
  TypeName :: string
  StartTime :: Time
  ExecutionTime :: Time
  CloseTime :: Time
  Status :: "32 word option"
  HistoryLength :: "64 word"
  Memo :: "DataBlob option"
  SearchAttributes :: "(string \<times> 'a) list"

type_synonym addr = nat

record InternalListWorkflowExecutionsResponse =
  Executions_internal :: "addr option list"
  NextPageToken_internal :: bytes

record ListWorkflowExecutionsResponse =
  Executions :: "WorkflowExecutionInfo option list"
  NextPageToken :: bytes

record InternalGetClosedWorkflowExecutionResponse =
  Execution_internal :: "addr option"

record GetClosedWorkflowExecutionResponse =
  Execution_closed :: "WorkflowExecutionInfo option"

subsection \<open>The logger and the program state\<close>

datatype 'a tag =
    TagWorkflowDomainID string
  | TagWorkflowID string
  | TagWorkflowRunID string
  | TagError error
  | TagValue 'a

datatype 'a log_entry = LogError string "'a tag list"

record 'a state =
  heap :: "addr \<Rightarrow> 'a VisibilityWorkflowExecutionInfo"
  logs :: "'a log_entry list"

definition logger_Error :: "string \<Rightarrow> 'a tag list \<Rightarrow> 'a state \<Rightarrow> 'a state" where
  "logger_Error msg tags s = s\<lparr>logs := logs s @ [LogError msg tags]\<rparr>"

subsection \<open>The requests of the three write operations\<close>

text \<open>
  The public requests carry the suffixes \<open>_S\<close> (started), \<open>_C\<close> (closed) and \<open>_U\<close>
  (upsert) on their fields, the internal ones \<open>_IS\<close>, \<open>_IC\<close> and \<open>_IU\<close>. The getters of
  \<open>WorkflowExecution\<close> are the generated ones: on a nil receiver they return the empty
  string.
\<close>

definition GetWorkflowId :: "WorkflowExecution option \<Rightarrow> string" where
  "GetWorkflowId m = (case m of Some x \<Rightarrow> WorkflowId x | None \<Rightarrow> [])"

definition GetRunId :: "WorkflowExecution option \<Rightarrow> string" where
  "GetRunId m = (case m of Some x \<Rightarrow> RunId x | None \<Rightarrow> [])"

record RecordWorkflowExecutionStartedRequest =
  DomainUUID_S :: string
  Execution_S :: "WorkflowExecution option"
  WorkflowTypeName_S :: string
  StartTimestamp_S :: "64 word"
  ExecutionTimestamp_S :: "64 word"
  WorkflowTimeout_S :: "64 word"
  TaskID_S :: "64 word"
  Memo_S :: "Memo option"
  SearchAttributes_S :: "string \<rightharpoonup> bytes"

record InternalRecordWorkflowExecutionStartedRequest =
  DomainUUID_IS :: string
  WorkflowID_IS :: string
  RunID_IS :: string
  WorkflowTypeName_IS :: string
  StartTimestamp_IS :: "64 word"
  ExecutionTimestamp_IS :: "64 word"
  WorkflowTimeout_IS :: "64 word"
  TaskID_IS :: "64 word"
  Memo_IS :: "DataBlob option"
  SearchAttributes_IS :: "string \<rightharpoonup> bytes"

record RecordWorkflowExecutionClosedRequest =
  DomainUUID_C :: string
  Execution_C :: "WorkflowExecution option"
  WorkflowTypeName_C :: string
  StartTimestamp_C :: "64 word"
  ExecutionTimestamp_C :: "64 word"
  CloseTimestamp_C :: "64 word"
  Status_C :: "32 word"
  HistoryLength_C :: "64 word"
  RetentionSeconds_C :: "64 word"
  TaskID_C :: "64 word"
  Memo_C :: "Memo option"
  SearchAttributes_C :: "string \<rightharpoonup> bytes"

record InternalRecordWorkflowExecutionClosedRequest =
  DomainUUID_IC :: string
  WorkflowID_IC :: string
  RunID_IC :: string
  WorkflowTypeName_IC :: string
  StartTimestamp_IC :: "64 word"
  ExecutionTimestamp_IC :: "64 word"
  TaskID_IC :: "64 word"
  Memo_IC :: "DataBlob option"
  SearchAttributes_IC :: "string \<rightharpoonup> bytes"
  CloseTimestamp_IC :: "64 word"
  Status_IC :: "32 word"
  HistoryLength_IC :: "64 word"
  RetentionSeconds_IC :: "64 word"

record UpsertWorkflowExecutionRequest =
  DomainUUID_U :: string
  Execution_U :: "WorkflowExecution option"
  WorkflowTypeName_U :: string
  StartTimestamp_U :: "64 word"
  ExecutionTimestamp_U :: "64 word"
  TaskID_U :: "64 word"
  Memo_U :: "Memo option"
  SearchAttributes_U :: "string \<rightharpoonup> bytes"

record InternalUpsertWorkflowExecutionRequest =
  DomainUUID_IU :: string
  WorkflowID_IU :: string
  RunID_IU :: string
  WorkflowTypeName_IU :: string
  StartTimestamp_IU :: "64 word"
  ExecutionTimestamp_IU :: "64 word"
  TaskID_IU :: "64 word"
  Memo_IU :: "DataBlob option"
  SearchAttributes_IU :: "string \<rightharpoonup> bytes"

subsection \<open>The collaborators of the manager\<close>

text \<open>
  The payload serializer is not part of these sources; the manager calls two of its
  methods, which are parameters here. Each returns a value and an error, as in Go.
\<close>

record PayloadSerializer =
  SerializeVisibilityMemo :: "Memo option \<Rightarrow> string \<Rightarrow> DataBlob option \<times> error option"
  DeserializeVisibilityMemo :: "DataBlob option \<Rightarrow> Memo option \<times> error option"

text \<open>
  The visibility store is an interface implemented outside these sources. Each of its
  methods is a parameter that takes the request and the state and returns its Go results
  and the state it leaves. The list and get requests are declared outside these sources
  too and the manager never looks inside one, so their types are variables: \<open>'l\<close> for
  \<open>ListWorkflowExecutionsRequest\<close>, \<open>'t\<close> for the by-type request, \<open>'w\<close> for the
  by-workflow-ID request, \<open>'c\<close> for the by-status request, \<open>'q\<close> for
  \<open>ListWorkflowExecutionsRequestV2\<close> and \<open>'g\<close> for \<open>GetClosedWorkflowExecutionRequest\<close>.
  The fields carry the prefix \<open>store_\<close>, the manager's methods of the same name none.
\<close>

type_synonym ('a, 'r) list_method =
  "'r \<Rightarrow> 'a state \<Rightarrow> (InternalListWorkflowExecutionsResponse option \<times> error option) \<times> 'a state"

record ('a, 'l, 't, 'w, 'c, 'q, 'g) VisibilityStore =
  store_RecordWorkflowExecutionStarted ::
    "InternalRecordWorkflowExecutionStartedRequest \<Rightarrow> 'a state \<Rightarrow> error option \<times> 'a state"
  store_RecordWorkflowExecutionClosed ::
    "InternalRecordWorkflowExecutionClosedRequest \<Rightarrow> 'a state \<Rightarrow> error option \<times> 'a state"
  store_UpsertWorkflowExecution ::
    "InternalUpsertWorkflowExecutionRequest \<Rightarrow> 'a state \<Rightarrow> error option \<times> 'a state"
  store_ListOpenWorkflowExecutions :: "('a, 'l) list_method"
  store_ListClosedWorkflowExecutions :: "('a, 'l) list_method"
  store_ListOpenWorkflowExecutionsByType :: "('a, 't) list_method"
  store_ListClosedWorkflowExecutionsByType :: "('a, 't) list_method"
  store_ListOpenWorkflowExecutionsByWorkflowID :: "('a, 'w) list_method"
  store_ListClosedWorkflowExecutionsByWorkflowID :: "('a, 'w) list_method"
  store_ListClosedWorkflowExecutionsByStatus :: "('a, 'c) list_method"
  store_GetClosedWorkflowExecution ::
    "'g \<Rightarrow> 'a state
       \<Rightarrow> (InternalGetClosedWorkflowExecutionResponse option \<times> error option) \<times> 'a state"
  store_ListWorkflowExecutions :: "('a, 'q) list_method"
  store_ScanWorkflowExecutions :: "('a, 'q) list_method"

text \<open>The manager; its logger is the \<open>logs\<close> of the state.\<close>

record ('a, 'l, 't, 'w, 'c, 'q, 'g) visibilityManagerImpl =
  serializer :: PayloadSerializer
  persistence :: "('a, 'l, 't, 'w, 'c, 'q, 'g) VisibilityStore"

definition EncodingTypeThriftRW :: string where
  "EncodingTypeThriftRW = ''thriftrw''"

definition VisibilityEncoding :: string where
  "VisibilityEncoding = EncodingTypeThriftRW"

subsection \<open>Search attributes\<close>

text \<open>
  \<open>getSearchAttributes\<close> ranges over the map and marshals each value with
  \<open>json.Marshal\<close>, the parameter \<open>jm\<close>. Its argument \<open>attr\<close> is the map as this
  range visits it: the entries in the order drawn for this call. The variable \<open>err\<close>
  is assigned in every round, so after the loop it holds the outcome of the last round
  only.
\<close>

fun getSearchAttributes_loop ::
  "('a \<Rightarrow> bytes \<times> error option) \<Rightarrow> (string \<times> 'a) list \<Rightarrow> (string \<rightharpoonup> bytes) \<Rightarrow> error option
     \<Rightarrow> 'a state \<Rightarrow> (string \<rightharpoonup> bytes) \<times> error option \<times> 'a state" where
  "getSearchAttributes_loop jm [] indexedFields err s = (indexedFields, err, s)"
| "getSearchAttributes_loop jm ((k, val) # rest) indexedFields err s =
     (case jm val of
        (valBytes, Some e) \<Rightarrow>
          getSearchAttributes_loop jm rest indexedFields (Some e)
            (logger_Error ''error when encode search attributes'' [TagValue val] s)
      | (valBytes, None) \<Rightarrow>
          getSearchAttributes_loop jm rest (indexedFields(k \<mapsto> valBytes)) None s)"

definition getSearchAttributes ::
  "('a \<Rightarrow> bytes \<times> error option) \<Rightarrow> ('a, 'l, 't, 'w, 'c, 'q, 'g) visibilityManagerImpl
     \<Rightarrow> (string \<times> 'a) list \<Rightarrow> 'a state
     \<Rightarrow> (SearchAttributes option \<times> error option) \<times> 'a state" where
  "getSearchAttributes jm v attr s =
     (case getSearchAttributes_loop jm attr Map.empty None s of
        (indexedFields, err, s') \<Rightarrow>
          (case err of
             Some e \<Rightarrow> ((None, Some e), s')
           | None \<Rightarrow> ((Some \<lparr>IndexedFields = indexedFields\<rparr>, None), s')))"

text \<open>
  The order in which a \<open>range\<close> visits a map is drawn by the Go runtime, afresh at
  every \<open>range\<close> statement: two ranges over one map need not agree. A record keeps the
  entries of its map in a list, and the draw of a range is a parameter of the conversion
  that runs the range: the entries as this range visits them. \<open>visited\<close> is the draw
  when the draw is an arrangement of the entries of the map; a list that is not is no draw
  of the runtime, and the entries are then visited as the record lists them.
\<close>

type_synonym 'a draw = "(string \<times> 'a) list"

definition visited :: "'a draw \<Rightarrow> (string \<times> 'a) list \<Rightarrow> (string \<times> 'a) list" where
  "visited ord attr = (if mset ord = mset attr then ord else attr)"

subsection \<open>Converting one record\<close>

text \<open>
  \<open>ord\<close> is the draw of the one range the conversion runs, in its call of
  \<open>getSearchAttributes\<close>.
\<close>

definition convertVisibilityWorkflowExecutionInfo ::
  "('a \<Rightarrow> bytes \<times> error option) \<Rightarrow> ('a, 'l, 't, 'w, 'c, 'q, 'g) visibilityManagerImpl
     \<Rightarrow> 'a draw \<Rightarrow> addr option \<Rightarrow> 'a state
     \<Rightarrow> panic + (WorkflowExecutionInfo \<times> 'a state)" where
  "convertVisibilityWorkflowExecutionInfo jm v ord execution s =
     (case execution of
        None \<Rightarrow> Inl NilDereference
      | Some p \<Rightarrow>
          let s1 = (if UnixNano (ExecutionTime (heap s p)) = 0
                    then s\<lparr>heap := (heap s)(p := (heap s p)\<lparr>ExecutionTime := StartTime (heap s p)\<rparr>)\<rparr>
                    else s);
              e = heap s1 p;
              (memo, err) = DeserializeVisibilityMemo (serializer v) (Memo e);
              s2 = (case err of
                      Some er \<Rightarrow> logger_Error ''failed to deserialize memo''
                                   [TagWorkflowID (WorkflowID e), TagWorkflowRunID (RunID e), TagError er] s1
                    | None \<Rightarrow> s1);
              ((searchAttributes, err'), s3) =
                getSearchAttributes jm v (visited ord (SearchAttributes e)) s2;
              s4 = (case err' of
                      Some er \<Rightarrow> logger_Error ''failed to convert search attributes''
                                   [TagWorkflowID (WorkflowID e), TagWorkflowRunID (RunID e), TagError er] s3
                    | None \<Rightarrow> s3);
              convertedExecution =
                \<lparr>Execution = Some \<lparr>WorkflowId = WorkflowID e, RunId = RunID e\<rparr>,
                 Type = Some \<lparr>Name = TypeName e\<rparr>,
                 StartTime_info = Some \<lparr>Value = UnixNano (StartTime e)\<rparr>,
                 CloseTime_info = None,
                 CloseStatus = 0,
                 HistoryLength_info = 0,
                 ExecutionTime_info = UnixNano (ExecutionTime e),
                 Memo_info = memo,
                 SearchAttributes_info = searchAttributes\<rparr>
          in Inr (case Status e of
                    Some st \<Rightarrow>
                      convertedExecution
                        \<lparr>CloseTime_info := Some \<lparr>Value = UnixNano (CloseTime e)\<rparr>,
                         CloseStatus := st,
                         HistoryLength_info := HistoryLength e\<rparr>
                  | None \<Rightarrow> convertedExecution, s4))"

subsection \<open>Converting the store's responses\<close>

text \<open>
  The loop of \<open>convertInternalListResponse\<close> fills the new slice from the first entry to
  the last; a nil entry stops it with the nil dereference of the conversion. Every entry
  is converted by a call of its own, which runs a range of its own: \<open>ords i\<close> is the
  draw of the range that the conversion of entry \<open>i\<close> runs, also when two entries are
  the same pointer.
\<close>

fun convertInternalListResponse_loop ::
  "('a \<Rightarrow> bytes \<times> error option) \<Rightarrow> ('a, 'l, 't, 'w, 'c, 'q, 'g) visibilityManagerImpl
     \<Rightarrow> (nat \<Rightarrow> 'a draw) \<Rightarrow> addr option list \<Rightarrow> 'a state
     \<Rightarrow> panic + (WorkflowExecutionInfo option list \<times> 'a state)" where
  "convertInternalListResponse_loop jm v ords [] s = Inr ([], s)"
| "convertInternalListResponse_loop jm v ords (execution # rest) s =
     (case convertVisibilityWorkflowExecutionInfo jm v (ords 0) execution s of
        Inl pn \<Rightarrow> Inl pn
      | Inr (converted, s') \<Rightarrow>
          (case convertInternalListResponse_loop jm v (\<lambda>i. ords (Suc i)) rest s' of
             Inl pn \<Rightarrow> Inl pn
           | Inr (others, s'') \<Rightarrow> Inr (Some converted # others, s'')))"

definition convertInternalListResponse ::
  "('a \<Rightarrow> bytes \<times> error option) \<Rightarrow> ('a, 'l, 't, 'w, 'c, 'q, 'g) visibilityManagerImpl
     \<Rightarrow> (nat \<Rightarrow> 'a draw) \<Rightarrow> InternalListWorkflowExecutionsResponse option \<Rightarrow> 'a state
     \<Rightarrow> panic + (ListWorkflowExecutionsResponse option \<times> 'a state)" where
  "convertInternalListResponse jm v ords internalResp s =
     (case internalResp of
        None \<Rightarrow> Inr (None, s)
      | Some ir \<Rightarrow>
          (case convertInternalListResponse_loop jm v ords (Executions_internal ir) s of
             Inl pn \<Rightarrow> Inl pn
           | Inr (executions, s') \<Rightarrow>
               Inr (Some \<lparr>Executions = executions,
                          NextPageToken = NextPageToken_internal ir\<rparr>, s')))"

definition convertInternalGetResponse ::
  "('a \<Rightarrow> bytes \<times> error option) \<Rightarrow> ('a, 'l, 't, 'w, 'c, 'q, 'g) visibilityManagerImpl
     \<Rightarrow> 'a draw \<Rightarrow> InternalGetClosedWorkflowExecutionResponse option \<Rightarrow> 'a state
     \<Rightarrow> panic + (GetClosedWorkflowExecutionResponse option \<times> 'a state)" where
  "convertInternalGetResponse jm v ord internalResp s =
     (case internalResp of
        None \<Rightarrow> Inr (None, s)
      | Some ir \<Rightarrow>
          (case convertVisibilityWorkflowExecutionInfo jm v ord (Execution_internal ir) s of
             Inl pn \<Rightarrow> Inl pn
           | Inr (converted, s') \<Rightarrow> Inr (Some \<lparr>Execution_closed = Some converted\<rparr>, s')))"

subsection \<open>Serializing the memo of a write request\<close>

definition serializeMemo ::
  "('a, 'l, 't, 'w, 'c, 'q, 'g) visibilityManagerImpl \<Rightarrow> Memo option \<Rightarrow> string \<Rightarrow> string \<Rightarrow> string
     \<Rightarrow> 'a state \<Rightarrow> DataBlob option \<times> 'a state" where
  "serializeMemo v visibilityMemo domainID wID rID s =
     (case SerializeVisibilityMemo (serializer v) visibilityMemo VisibilityEncoding of
        (memo, err) \<Rightarrow>
          let s1 = (case err of
                      Some er \<Rightarrow> logger_Error ''Unable to encode visibility memo''
                                   [TagWorkflowDomainID domainID, TagWorkflowID wID,
                                    TagWorkflowRunID rID, TagError er] s
                    | None \<Rightarrow> s)
          in (case memo of
                None \<Rightarrow> (Some \<lparr>Encoding = [], Data = []\<rparr>, s1)
              | Some blob \<Rightarrow> (Some blob, s1)))"

subsection \<open>The write operations\<close>

definition RecordWorkflowExecutionStarted ::
  "('a, 'l, 't, 'w, 'c, 'q, 'g) visibilityManagerImpl
     \<Rightarrow> RecordWorkflowExecutionStartedRequest option \<Rightarrow> 'a state
     \<Rightarrow> panic + (error option \<times> 'a state)" where
  "RecordWorkflowExecutionStarted v request s =
     (case request of
        None \<Rightarrow> Inl NilDereference
      | Some r \<Rightarrow>
          (case serializeMemo v (Memo_S r) (DomainUUID_S r)
                  (GetWorkflowId (Execution_S r)) (GetRunId (Execution_S r)) s of
             (memo, s1) \<Rightarrow>
               Inr (store_RecordWorkflowExecutionStarted (persistence v)
                      \<lparr>DomainUUID_IS = DomainUUID_S r,
                       WorkflowID_IS = GetWorkflowId (Execution_S r),
                       RunID_IS = GetRunId (Execution_S r),
                       WorkflowTypeName_IS = WorkflowTypeName_S r,
                       StartTimestamp_IS = StartTimestamp_S r,
                       ExecutionTimestamp_IS = ExecutionTimestamp_S r,
                       WorkflowTimeout_IS = WorkflowTimeout_S r,
                       TaskID_IS = TaskID_S r,
                       Memo_IS = memo,
                       SearchAttributes_IS = SearchAttributes_S r\<rparr> s1)))"

definition RecordWorkflowExecutionClosed ::
  "('a, 'l, 't, 'w, 'c, 'q, 'g) visibilityManagerImpl
     \<Rightarrow> RecordWorkflowExecutionClosedRequest option \<Rightarrow> 'a state
     \<Rightarrow> panic + (error option \<times> 'a state)" where
  "RecordWorkflowExecutionClosed v request s =
     (case request of
        None \<Rightarrow> Inl NilDereference
      | Some r \<Rightarrow>
          (case serializeMemo v (Memo_C r) (DomainUUID_C r)
                  (GetWorkflowId (Execution_C r)) (GetRunId (Execution_C r)) s of
             (memo, s1) \<Rightarrow>
               Inr (store_RecordWorkflowExecutionClosed (persistence v)
                      \<lparr>DomainUUID_IC = DomainUUID_C r,
                       WorkflowID_IC = GetWorkflowId (Execution_C r),
                       RunID_IC = GetRunId (Execution_C r),
                       WorkflowTypeName_IC = WorkflowTypeName_C r,
                       StartTimestamp_IC = StartTimestamp_C r,
                       ExecutionTimestamp_IC = ExecutionTimestamp_C r,
                       TaskID_IC = TaskID_C r,
                       Memo_IC = memo,
                       SearchAttributes_IC = SearchAttributes_C r,
                       CloseTimestamp_IC = CloseTimestamp_C r,
                       Status_IC = Status_C r,
                       HistoryLength_IC = HistoryLength_C r,
                       RetentionSeconds_IC = RetentionSeconds_C r\<rparr> s1)))"

definition UpsertWorkflowExecution ::
  "('a, 'l, 't, 'w, 'c, 'q, 'g) visibilityManagerImpl
     \<Rightarrow> UpsertWorkflowExecutionRequest option \<Rightarrow> 'a state
     \<Rightarrow> panic + (error option \<times> 'a state)" where
  "UpsertWorkflowExecution v request s =
     (case request of
        None \<Rightarrow> Inl NilDereference
      | Some r \<Rightarrow>
          (case serializeMemo v (Memo_U r) (DomainUUID_U r)
                  (GetWorkflowId (Execution_U r)) (GetRunId (Execution_U r)) s of
             (memo, s1) \<Rightarrow>
               Inr (store_UpsertWorkflowExecution (persistence v)
                      \<lparr>DomainUUID_IU = DomainUUID_U r,
                       WorkflowID_IU = GetWorkflowId (Execution_U r),
                       RunID_IU = GetRunId (Execution_U r),
                       WorkflowTypeName_IU = WorkflowTypeName_U r,
                       StartTimestamp_IU = StartTimestamp_U r,
                       ExecutionTimestamp_IU = ExecutionTimestamp_U r,
                       TaskID_IU = TaskID_U r,
                       Memo_IU = memo,
                       SearchAttributes_IU = SearchAttributes_U r\<rparr> s1)))"

subsection \<open>The list, scan and get operations\<close>

text \<open>
  Each operation asks the store, returns the store's error with a nil response when there
  is one, and converts the store's response otherwise. The result is the pair of Go
  results and the state. \<open>ords\<close> are the draws of the ranges the conversions run, one
  for each entry; the get operation converts one record and takes one draw. \<open>Close\<close>, \<open>GetName\<close>, \<open>DeleteWorkflowExecution\<close> and
  \<open>CountWorkflowExecutions\<close> only hand their argument to the store and return what it
  returns; they are left out.
\<close>

definition ListOpenWorkflowExecutions ::
  "('a \<Rightarrow> bytes \<times> error option) \<Rightarrow> ('a, 'l, 't, 'w, 'c, 'q, 'g) visibilityManagerImpl
     \<Rightarrow> (nat \<Rightarrow> 'a draw) \<Rightarrow> 'l \<Rightarrow> 'a state
     \<Rightarrow> panic + ((ListWorkflowExecutionsResponse option \<times> error option) \<times> 'a state)" where
  "ListOpenWorkflowExecutions jm v ords request s =
     (case store_ListOpenWorkflowExecutions (persistence v) request s of
        ((internalResp, err), s1) \<Rightarrow>
          (case err of
             Some e \<Rightarrow> Inr ((None, Some e), s1)
           | None \<Rightarrow>
               (case convertInternalListResponse jm v ords internalResp s1 of
                  Inl pn \<Rightarrow> Inl pn
                | Inr (resp, s2) \<Rightarrow> Inr ((resp, None), s2))))"

definition ListClosedWorkflowExecutions ::
  "('a \<Rightarrow> bytes \<times> error option) \<Rightarrow> ('a, 'l, 't, 'w, 'c, 'q, 'g) visibilityManagerImpl
     \<Rightarrow> (nat \<Rightarrow> 'a draw) \<Rightarrow> 'l \<Rightarrow> 'a state
     \<Rightarrow> panic + ((ListWorkflowExecutionsResponse option \<times> error option) \<times> 'a state)" where
  "ListClosedWorkflowExecutions jm v ords request s =
     (case store_ListClosedWorkflowExecutions (persistence v) request s of
        ((internalResp, err), s1) \<Rightarrow>
          (case err of
             Some e \<Rightarrow> Inr ((None, Some e), s1)
           | None \<Rightarrow>
               (case convertInternalListResponse jm v ords internalResp s1 of
                  Inl pn \<Rightarrow> Inl pn
                | Inr (resp, s2) \<Rightarrow> Inr ((resp, None), s2))))"

definition ListOpenWorkflowExecutionsByType ::
  "('a \<Rightarrow> bytes \<times> error option) \<Rightarrow> ('a, 'l, 't, 'w, 'c, 'q, 'g) visibilityManagerImpl
     \<Rightarrow> (nat \<Rightarrow> 'a draw) \<Rightarrow> 't \<Rightarrow> 'a state
     \<Rightarrow> panic + ((ListWorkflowExecutionsResponse option \<times> error option) \<times> 'a state)" where
  "ListOpenWorkflowExecutionsByType jm v ords request s =
     (case store_ListOpenWorkflowExecutionsByType (persistence v) request s of
        ((internalResp, err), s1) \<Rightarrow>
          (case err of
             Some e \<Rightarrow> Inr ((None, Some e), s1)
           | None \<Rightarrow>
               (case convertInternalListResponse jm v ords internalResp s1 of
                  Inl pn \<Rightarrow> Inl pn
                | Inr (resp, s2) \<Rightarrow> Inr ((resp, None), s2))))"

definition ListClosedWorkflowExecutionsByType ::
  "('a \<Rightarrow> bytes \<times> error option) \<Rightarrow> ('a, 'l, 't, 'w, 'c, 'q, 'g) visibilityManagerImpl
     \<Rightarrow> (nat \<Rightarrow> 'a draw) \<Rightarrow> 't \<Rightarrow> 'a state
     \<Rightarrow> panic + ((ListWorkflowExecutionsResponse option \<times> error option) \<times> 'a state)" where
  "ListClosedWorkflowExecutionsByType jm v ords request s =
     (case store_ListClosedWorkflowExecutionsByType (persistence v) request s of
        ((internalResp, err), s1) \<Rightarrow>
          (case err of
             Some e \<Rightarrow> Inr ((None, Some e), s1)
           | None \<Rightarrow>
               (case convertInternalListResponse jm v ords internalResp s1 of
                  Inl pn \<Rightarrow> Inl pn
                | Inr (resp, s2) \<Rightarrow> Inr ((resp, None), s2))))"

definition ListOpenWorkflowExecutionsByWorkflowID ::
  "('a \<Rightarrow> bytes \<times> error option) \<Rightarrow> ('a, 'l, 't, 'w, 'c, 'q, 'g) visibilityManagerImpl
     \<Rightarrow> (nat \<Rightarrow> 'a draw) \<Rightarrow> 'w \<Rightarrow> 'a state
     \<Rightarrow> panic + ((ListWorkflowExecutionsResponse option \<times> error option) \<times> 'a state)" where
  "ListOpenWorkflowExecutionsByWorkflowID jm v ords request s =
     (case store_ListOpenWorkflowExecutionsByWorkflowID (persistence v) request s of
        ((internalResp, err), s1) \<Rightarrow>
          (case err of
             Some e \<Rightarrow> Inr ((None, Some e), s1)
           | None \<Rightarrow>
               (case convertInternalListResponse jm v ords internalResp s1 of
                  Inl pn \<Rightarrow> Inl pn
                | Inr (resp, s2) \<Rightarrow> Inr ((resp, None), s2))))"

definition ListClosedWorkflowExecutionsByWorkflowID ::
  "('a \<Rightarrow> bytes \<times> error option) \<Rightarrow> ('a, 'l, 't, 'w, 'c, 'q, 'g) visibilityManagerImpl
     \<Rightarrow> (nat \<Rightarrow> 'a draw) \<Rightarrow> 'w \<Rightarrow> 'a state
     \<Rightarrow> panic + ((ListWorkflowExecutionsResponse option \<times> error option) \<times> 'a state)" where
  "ListClosedWorkflowExecutionsByWorkflowID jm v ords request s =
     (case store_ListClosedWorkflowExecutionsByWorkflowID (persistence v) request s of
        ((internalResp, err), s1) \<Rightarrow>
          (case err of
             Some e \<Rightarrow> Inr ((None, Some e), s1)
           | None \<Rightarrow>
               (case convertInternalListResponse jm v ords internalResp s1 of
                  Inl pn \<Rightarrow> Inl pn
                | Inr (resp, s2) \<Rightarrow> Inr ((resp, None), s2))))"

definition ListClosedWorkflowExecutionsByStatus ::
  "('a \<Rightarrow> bytes \<times> error option) \<Rightarrow> ('a, 'l, 't, 'w, 'c, 'q, 'g) visibilityManagerImpl
     \<Rightarrow> (nat \<Rightarrow> 'a draw) \<Rightarrow> 'c \<Rightarrow> 'a state
     \<Rightarrow> panic + ((ListWorkflowExecutionsResponse option \<times> error option) \<times> 'a state)" where
  "ListClosedWorkflowExecutionsByStatus jm v ords request s =
     (case store_ListClosedWorkflowExecutionsByStatus (persistence v) request s of
        ((internalResp, err), s1) \<Rightarrow>
          (case err of
             Some e \<Rightarrow> Inr ((None, Some e), s1)
           | None \<Rightarrow>
               (case convertInternalListResponse jm v ords internalResp s1 of
                  Inl pn \<Rightarrow> Inl pn
                | Inr (resp, s2) \<Rightarrow> Inr ((resp, None), s2))))"

definition GetClosedWorkflowExecution ::
  "('a \<Rightarrow> bytes \<times> error option) \<Rightarrow> ('a, 'l, 't, 'w, 'c, 'q, 'g) visibilityManagerImpl
     \<Rightarrow> 'a draw \<Rightarrow> 'g \<Rightarrow> 'a state
     \<Rightarrow> panic + ((GetClosedWorkflowExecutionResponse option \<times> error option) \<times> 'a state)" where
  "GetClosedWorkflowExecution jm v ord request s =
     (case store_GetClosedWorkflowExecution (persistence v) request s of
        ((internalResp, err), s1) \<Rightarrow>
          (case err of
             Some e \<Rightarrow> Inr ((None, Some e), s1)
           | None \<Rightarrow>
               (case convertInternalGetResponse jm v ord internalResp s1 of
                  Inl pn \<Rightarrow> Inl pn
                | Inr (resp, s2) \<Rightarrow> Inr ((resp, None), s2))))"

definition ListWorkflowExecutions ::
  "('a \<Rightarrow> bytes \<times> error option) \<Rightarrow> ('a, 'l, 't, 'w, 'c, 'q, 'g) visibilityManagerImpl
     \<Rightarrow> (nat \<Rightarrow> 'a draw) \<Rightarrow> 'q \<Rightarrow> 'a state
     \<Rightarrow> panic + ((ListWorkflowExecutionsResponse option \<times> error option) \<times> 'a state)" where
  "ListWorkflowExecutions jm v ords request s =
     (case store_ListWorkflowExecutions (persistence v) request s of
        ((internalResp, err), s1) \<Rightarrow>
          (case err of
             Some e \<Rightarrow> Inr ((None, Some e), s1)
           | None \<Rightarrow>
               (case convertInternalListResponse jm v ords internalResp s1 of
                  Inl pn \<Rightarrow> Inl pn
                | Inr (resp, s2) \<Rightarrow> Inr ((resp, None), s2))))"

definition ScanWorkflowExecutions ::
  "('a \<Rightarrow> bytes \<times> error option) \<Rightarrow> ('a, 'l, 't, 'w, 'c, 'q, 'g) visibilityManagerImpl
     \<Rightarrow> (nat \<Rightarrow> 'a draw) \<Rightarrow> 'q \<Rightarrow> 'a state
     \<Rightarrow> panic + ((ListWorkflowExecutionsResponse option \<times> error option) \<times> 'a state)" where
  "ScanWorkflowExecutions jm v ords request s =
     (case store_ScanWorkflowExecutions (persistence v) request s of
        ((internalResp, err), s1) \<Rightarrow>
          (case err of
             Some e \<Rightarrow> Inr ((None, Some e), s1)
           | None \<Rightarrow>
               (case convertInternalListResponse jm v ords internalResp s1 of
                  Inl pn \<Rightarrow> Inl pn
                | Inr (resp, s2) \<Rightarrow> Inr ((resp, None), s2))))"

subsection \<open>Closed forms for the proofs\<close>

text \<open>
  The definitions of this subsection are not part of the program. They say in closed form
  what the loop of \<open>getSearchAttributes\<close> and the conversion of one record compute, for
  the order that the range draws, and the lemmas below prove that they do; the properties
  of the program are then read off the closed forms.
\<close>

definition marshalledFields ::
  "('a \<Rightarrow> bytes \<times> error option) \<Rightarrow> (string \<times> 'a) list \<Rightarrow> (string \<rightharpoonup> bytes)" where
  "marshalledFields jm attr =
     map_of (rev (map (\<lambda>(k, val). (k, fst (jm val)))
                   (filter (\<lambda>(k, val). snd (jm val) = None) attr)))"

definition lastError ::
  "('a \<Rightarrow> bytes \<times> error option) \<Rightarrow> (string \<times> 'a) list \<Rightarrow> error option" where
  "lastError jm attr = (if attr = [] then None else snd (jm (snd (last attr))))"

definition marshalLogs ::
  "('a \<Rightarrow> bytes \<times> error option) \<Rightarrow> (string \<times> 'a) list \<Rightarrow> 'a log_entry list" where
  "marshalLogs jm attr =
     map (\<lambda>(k, val). LogError ''error when encode search attributes'' [TagValue val])
       (filter (\<lambda>(k, val). snd (jm val) \<noteq> None) attr)"

definition normalised ::
  "'a VisibilityWorkflowExecutionInfo \<Rightarrow> 'a VisibilityWorkflowExecutionInfo" where
  "normalised r =
     (if UnixNano (ExecutionTime r) = 0 then r\<lparr>ExecutionTime := StartTime r\<rparr> else r)"

definition searchAttributesOf ::
  "('a \<Rightarrow> bytes \<times> error option) \<Rightarrow> (string \<times> 'a) list \<Rightarrow> SearchAttributes option" where
  "searchAttributesOf jm attr =
     (case lastError jm attr of
        Some e \<Rightarrow> None
      | None \<Rightarrow> Some \<lparr>IndexedFields = marshalledFields jm attr\<rparr>)"

definition publicInfo ::
  "('a \<Rightarrow> bytes \<times> error option) \<Rightarrow> ('a, 'l, 't, 'w, 'c, 'q, 'g) visibilityManagerImpl
     \<Rightarrow> 'a draw \<Rightarrow> 'a VisibilityWorkflowExecutionInfo \<Rightarrow> WorkflowExecutionInfo" where
  "publicInfo jm v ord r =
     \<lparr>Execution = Some \<lparr>WorkflowId = WorkflowID r, RunId = RunID r\<rparr>,
      Type = Some \<lparr>Name = TypeName r\<rparr>,
      StartTime_info = Some \<lparr>Value = UnixNano (StartTime r)\<rparr>,
      CloseTime_info =
        (case Status r of Some st \<Rightarrow> Some \<lparr>Value = UnixNano (CloseTime r)\<rparr> | None \<Rightarrow> None),
      CloseStatus = (case Status r of Some st \<Rightarrow> st | None \<Rightarrow> 0),
      HistoryLength_info = (case Status r of Some st \<Rightarrow> HistoryLength r | None \<Rightarrow> 0),
      ExecutionTime_info = UnixNano (ExecutionTime (normalised r)),
      Memo_info = fst (DeserializeVisibilityMemo (serializer v) (Memo r)),
      SearchAttributes_info = searchAttributesOf jm (visited ord (SearchAttributes r))\<rparr>"

definition conversionLogs ::
  "('a \<Rightarrow> bytes \<times> error option) \<Rightarrow> ('a, 'l, 't, 'w, 'c, 'q, 'g) visibilityManagerImpl
     \<Rightarrow> 'a draw \<Rightarrow> 'a VisibilityWorkflowExecutionInfo \<Rightarrow> 'a log_entry list" where
  "conversionLogs jm v ord r =
     (case snd (DeserializeVisibilityMemo (serializer v) (Memo r)) of
        Some er \<Rightarrow> [LogError ''failed to deserialize memo''
                     [TagWorkflowID (WorkflowID r), TagWorkflowRunID (RunID r), TagError er]]
      | None \<Rightarrow> [])
     @ marshalLogs jm (visited ord (SearchAttributes r))
     @ (case lastError jm (visited ord (SearchAttributes r)) of
          Some er \<Rightarrow> [LogError ''failed to convert search attributes''
                       [TagWorkflowID (WorkflowID r), TagWorkflowRunID (RunID r), TagError er]]
        | None \<Rightarrow> [])"

subsection \<open>What the claims say of the list and get operations\<close>

text \<open>
  These predicates are not part of the program either: they spell out, in the words of the
  specification, what a list operation and the get operation owe their caller, given the
  answer of the store, so that the theorems about the ten operations stay readable.

  \<open>list_contract\<close>: the store's error is returned with a nil response; a nil response
  without an error is passed on as nil; a response none of whose entries is nil comes back
  with the same page token and, entry for entry and in the same order, the conversion of
  the store's record as the store left it, run with the draw of that entry's own range.
  Two entries that are the same pointer are two conversions with two draws, and need not
  come back alike.
\<close>

definition list_contract ::
  "('a \<Rightarrow> bytes \<times> error option) \<Rightarrow> ('a, 'l, 't, 'w, 'c, 'q, 'g) visibilityManagerImpl
     \<Rightarrow> (nat \<Rightarrow> 'a draw)
     \<Rightarrow> (InternalListWorkflowExecutionsResponse option \<times> error option) \<times> 'a state
     \<Rightarrow> panic + ((ListWorkflowExecutionsResponse option \<times> error option) \<times> 'a state) \<Rightarrow> bool" where
  "list_contract jm v ords answer out =
     (case answer of
        ((internalResp, err), s1) \<Rightarrow>
          (case err of
             Some e \<Rightarrow> out = Inr ((None, Some e), s1)
           | None \<Rightarrow>
               (case internalResp of
                  None \<Rightarrow> out = Inr ((None, None), s1)
                | Some ir \<Rightarrow>
                    (\<forall>x \<in> set (Executions_internal ir). x \<noteq> None) \<longrightarrow>
                    (\<exists>resp s2.
                       out = Inr ((Some resp, None), s2) \<and>
                       NextPageToken resp = NextPageToken_internal ir \<and>
                       length (Executions resp) = length (Executions_internal ir) \<and>
                       (\<forall>i < length (Executions_internal ir).
                          \<exists>c s'. convertVisibilityWorkflowExecutionInfo jm v (ords i)
                                    (Executions_internal ir ! i) s1 = Inr (c, s') \<and>
                                 Executions resp ! i = Some c)))))"

text \<open>
  \<open>degraded\<close>: the public record \<open>c\<close> is the record \<open>r\<close> with failures
  degraded. Its identity, type, times and close fields are those of \<open>r\<close>. Its memo is
  what the deserializer returned, no memo when it returned none, and an error of the
  deserializer is among the log entries \<open>written\<close>. Every search attribute whose value
  fails to marshal is logged, every indexed field returned is the marshalling of a value
  that marshalled, and when all values marshal every key is returned.
\<close>

definition degraded ::
  "('a \<Rightarrow> bytes \<times> error option) \<Rightarrow> ('a, 'l, 't, 'w, 'c, 'q, 'g) visibilityManagerImpl
     \<Rightarrow> 'a VisibilityWorkflowExecutionInfo \<Rightarrow> WorkflowExecutionInfo \<Rightarrow> 'a log_entry list \<Rightarrow> bool" where
  "degraded jm v r c written =
     (Execution c = Some \<lparr>WorkflowId = WorkflowID r, RunId = RunID r\<rparr> \<and>
      Type c = Some \<lparr>Name = TypeName r\<rparr> \<and>
      StartTime_info c = Some \<lparr>Value = UnixNano (StartTime r)\<rparr> \<and>
      ExecutionTime_info c =
        (if UnixNano (ExecutionTime r) = 0 then UnixNano (StartTime r)
         else UnixNano (ExecutionTime r)) \<and>
      (case Status r of
         None \<Rightarrow> CloseTime_info c = None \<and> CloseStatus c = 0 \<and> HistoryLength_info c = 0
       | Some st \<Rightarrow>
           CloseTime_info c = Some \<lparr>Value = UnixNano (CloseTime r)\<rparr> \<and>
           CloseStatus c = st \<and> HistoryLength_info c = HistoryLength r) \<and>
      (\<forall>m er. DeserializeVisibilityMemo (serializer v) (Memo r) = (m, Some er) \<longrightarrow>
         Memo_info c = m \<and>
         LogError ''failed to deserialize memo''
           [TagWorkflowID (WorkflowID r), TagWorkflowRunID (RunID r), TagError er] \<in> set written) \<and>
      (\<forall>m. DeserializeVisibilityMemo (serializer v) (Memo r) = (m, None) \<longrightarrow> Memo_info c = m) \<and>
      (\<forall>x \<in> set (SearchAttributes r).
         snd (jm (snd x)) \<noteq> None \<longrightarrow>
         LogError ''error when encode search attributes'' [TagValue (snd x)] \<in> set written) \<and>
      (\<forall>sa k b. SearchAttributes_info c = Some sa \<longrightarrow> IndexedFields sa k = Some b \<longrightarrow>
         (\<exists>val. (k, val) \<in> set (SearchAttributes r) \<and> jm val = (b, None))) \<and>
      ((\<forall>x \<in> set (SearchAttributes r). snd (jm (snd x)) = None) \<longrightarrow>
         (\<exists>sa. SearchAttributes_info c = Some sa \<and>
            fst ` set (SearchAttributes r) \<subseteq> dom (IndexedFields sa))))"

text \<open>
  \<open>list_degrades\<close> and \<open>get_degrades\<close>: the only error the operation returns is the
  store's; otherwise every record of the store's answer comes back degraded as above,
  with the log of the state the operation leaves.
\<close>

definition list_degrades ::
  "('a \<Rightarrow> bytes \<times> error option) \<Rightarrow> ('a, 'l, 't, 'w, 'c, 'q, 'g) visibilityManagerImpl
     \<Rightarrow> (InternalListWorkflowExecutionsResponse option \<times> error option) \<times> 'a state
     \<Rightarrow> panic + ((ListWorkflowExecutionsResponse option \<times> error option) \<times> 'a state) \<Rightarrow> bool" where
  "list_degrades jm v answer out =
     (case answer of
        ((internalResp, err), s1) \<Rightarrow>
          (case err of
             Some e \<Rightarrow> out = Inr ((None, Some e), s1)
           | None \<Rightarrow>
               (case internalResp of
                  None \<Rightarrow> out = Inr ((None, None), s1)
                | Some ir \<Rightarrow>
                    (\<forall>x \<in> set (Executions_internal ir). x \<noteq> None) \<longrightarrow>
                    (\<exists>resp s2.
                       out = Inr ((Some resp, None), s2) \<and>
                       length (Executions resp) = length (Executions_internal ir) \<and>
                       (\<forall>i < length (Executions_internal ir).
                          \<exists>p c. Executions_internal ir ! i = Some p \<and>
                                Executions resp ! i = Some c \<and>
                                degraded jm v (heap s1 p) c (logs s2))))))"

definition get_degrades ::
  "('a \<Rightarrow> bytes \<times> error option) \<Rightarrow> ('a, 'l, 't, 'w, 'c, 'q, 'g) visibilityManagerImpl
     \<Rightarrow> (InternalGetClosedWorkflowExecutionResponse option \<times> error option) \<times> 'a state
     \<Rightarrow> panic + ((GetClosedWorkflowExecutionResponse option \<times> error option) \<times> 'a state) \<Rightarrow> bool" where
  "get_degrades jm v answer out =
     (case answer of
        ((internalResp, err), s1) \<Rightarrow>
          (case err of
             Some e \<Rightarrow> out = Inr ((None, Some e), s1)
           | None \<Rightarrow>
               (case internalResp of
                  None \<Rightarrow> out = Inr ((None, None), s1)
                | Some ir \<Rightarrow>
                    Execution_internal ir \<noteq> None \<longrightarrow>
                    (\<exists>resp s2 p c.
                       out = Inr ((Some resp, None), s2) \<and>
                       Execution_internal ir = Some p \<and>
                       Execution_closed resp = Some c \<and>
                       degraded jm v (heap s1 p) c (logs s2)))))"

subsection \<open>Sample values\<close>

text \<open>
  A manager, a store and records on which the theorems below are run. The sample
  marshaller takes the natural numbers for Go values and refuses \<open>0\<close>; the sample
  serializer refuses a memo with a field \<open>bad\<close> and a blob that is not ThriftRW. The
  sample store answers every list request with three entries, two of them the same
  pointer, fails every started-request with an error that spells out the identifiers it
  was given, and accepts a closed-request only with a memo blob. The two sample records
  have the same search attributes, \<open>a\<close> with a value that does not marshal and
  \<open>b\<close> with one that does. In the sample draws the first range visits \<open>a\<close> before
  \<open>b\<close> and every later range \<open>b\<close> before \<open>a\<close>.
\<close>

definition demo_marshal :: "nat \<Rightarrow> bytes \<times> error option" where
  "demo_marshal n =
     (if n = 0 then ([], Some (GoError ''json: unsupported type'')) else ([of_nat n], None))"

definition demo_serializer :: PayloadSerializer where
  "demo_serializer =
     \<lparr>SerializeVisibilityMemo = (\<lambda>m enc.
        case m of
          None \<Rightarrow> (None, None)
        | Some x \<Rightarrow>
            (if Fields x ''bad'' = None then (Some \<lparr>Encoding = enc, Data = [1]\<rparr>, None)
             else (None, Some (GoError ''cannot encode'')))),
      DeserializeVisibilityMemo = (\<lambda>b.
        case b of
          None \<Rightarrow> (Some \<lparr>Fields = Map.empty\<rparr>, None)
        | Some blob \<Rightarrow>
            (if Encoding blob = ''thriftrw'' then (Some \<lparr>Fields = Map.empty\<rparr>, None)
             else (None, Some (GoError ''unknown encoding''))))\<rparr>"

definition demo_response :: InternalListWorkflowExecutionsResponse where
  "demo_response = \<lparr>Executions_internal = [Some 0, Some 1, Some 0], NextPageToken_internal = [7]\<rparr>"

definition demo_draws :: "nat \<Rightarrow> nat draw" where
  "demo_draws i = (if i = 0 then [(''a'', 0), (''b'', 1)] else [(''b'', 1), (''a'', 0)])"

definition demo_list :: "(nat, unit) list_method" where
  "demo_list request s = ((Some demo_response, None), s)"

definition demo_store :: "(nat, unit, unit, unit, unit, unit, unit) VisibilityStore" where
  "demo_store =
     \<lparr>store_RecordWorkflowExecutionStarted = (\<lambda>req s.
        (Some (GoError (DomainUUID_IS req @ ''/'' @ WorkflowID_IS req @ ''/'' @ RunID_IS req)), s)),
      store_RecordWorkflowExecutionClosed = (\<lambda>req s.
        (if Memo_IC req = None then Some (GoError ''memo missing'') else None, s)),
      store_UpsertWorkflowExecution = (\<lambda>req s. (None, s)),
      store_ListOpenWorkflowExecutions = demo_list,
      store_ListClosedWorkflowExecutions = demo_list,
      store_ListOpenWorkflowExecutionsByType = demo_list,
      store_ListClosedWorkflowExecutionsByType = demo_list,
      store_ListOpenWorkflowExecutionsByWorkflowID = demo_list,
      store_ListClosedWorkflowExecutionsByWorkflowID = demo_list,
      store_ListClosedWorkflowExecutionsByStatus = demo_list,
      store_GetClosedWorkflowExecution = (\<lambda>request s. ((Some \<lparr>Execution_internal = Some 1\<rparr>, None), s)),
      store_ListWorkflowExecutions = demo_list,
      store_ScanWorkflowExecutions = demo_list\<rparr>"

definition demo_manager :: "(nat, unit, unit, unit, unit, unit, unit) visibilityManagerImpl" where
  "demo_manager = \<lparr>serializer = demo_serializer, persistence = demo_store\<rparr>"

definition demo_open :: "nat VisibilityWorkflowExecutionInfo" where
  "demo_open =
     \<lparr>WorkflowID = ''wf-0'', RunID = ''run-0'', TypeName = ''cron'',
      StartTime = \<lparr>unixSec = 5, nsec = 0\<rparr>,
      ExecutionTime = \<lparr>unixSec = 0, nsec = 0\<rparr>,
      CloseTime = \<lparr>unixSec = 0, nsec = 0\<rparr>,
      Status = None, HistoryLength = 0, Memo = None,
      SearchAttributes = [(''a'', 0), (''b'', 1)]\<rparr>"

definition demo_closed :: "nat VisibilityWorkflowExecutionInfo" where
  "demo_closed =
     \<lparr>WorkflowID = ''wf-1'', RunID = ''run-1'', TypeName = ''batch'',
      StartTime = \<lparr>unixSec = 6, nsec = 0\<rparr>,
      ExecutionTime = \<lparr>unixSec = 7, nsec = 0\<rparr>,
      CloseTime = \<lparr>unixSec = 9, nsec = 0\<rparr>,
      Status = Some 2, HistoryLength = 11,
      Memo = Some \<lparr>Encoding = ''json'', Data = []\<rparr>,
      SearchAttributes = [(''b'', 1), (''a'', 0)]\<rparr>"

definition demo_state :: "nat state" where
  "demo_state = \<lparr>heap = (\<lambda>a. if a = 0 then demo_open else demo_closed), logs = []\<rparr>"

definition demo_memo :: Memo where
  "demo_memo = \<lparr>Fields = [''bad'' \<mapsto> []]\<rparr>"

definition demo_started :: RecordWorkflowExecutionStartedRequest where
  "demo_started =
     \<lparr>DomainUUID_S = ''dom'', Execution_S = Some \<lparr>WorkflowId = ''wf-2'', RunId = ''run-2''\<rparr>,
      WorkflowTypeName_S = ''cron'', StartTimestamp_S = 5, ExecutionTimestamp_S = 6,
      WorkflowTimeout_S = 60, TaskID_S = 8, Memo_S = Some demo_memo,
      SearchAttributes_S = Map.empty\<rparr>"

definition demo_closing :: RecordWorkflowExecutionClosedRequest where
  "demo_closing =
     \<lparr>DomainUUID_C = ''dom'', Execution_C = Some \<lparr>WorkflowId = ''wf-2'', RunId = ''run-2''\<rparr>,
      WorkflowTypeName_C = ''cron'', StartTimestamp_C = 5, ExecutionTimestamp_C = 6,
      CloseTimestamp_C = 9, Status_C = 1, HistoryLength_C = 20, RetentionSeconds_C = 3600,
      TaskID_C = 8, Memo_C = Some demo_memo, SearchAttributes_C = Map.empty\<rparr>"

definition demo_upsert :: UpsertWorkflowExecutionRequest where
  "demo_upsert =
     \<lparr>DomainUUID_U = ''dom'', Execution_U = Some \<lparr>WorkflowId = ''wf-2'', RunId = ''run-2''\<rparr>,
      WorkflowTypeName_U = ''cron'', StartTimestamp_U = 5, ExecutionTimestamp_U = 6,
      TaskID_U = 8, Memo_U = Some demo_memo, SearchAttributes_U = Map.empty\<rparr>"

section \<open>Properties\<close>

subsection \<open>The closed forms are what the program computes\<close>

lemma marshalledFields_Nil: "marshalledFields jm [] = Map.empty"
  by (simp add: marshalledFields_def)

lemma marshalledFields_Cons:
  "marshalledFields jm ((k, val) # rest) =
     (case snd (jm val) of
        None \<Rightarrow> [k \<mapsto> fst (jm val)] ++ marshalledFields jm rest
      | Some e \<Rightarrow> marshalledFields jm rest)"
  by (simp add: marshalledFields_def split: option.split)

lemma marshalLogs_Nil: "marshalLogs jm [] = []"
  by (simp add: marshalLogs_def)

lemma marshalLogs_Cons:
  "marshalLogs jm ((k, val) # rest) =
     (case snd (jm val) of
        None \<Rightarrow> marshalLogs jm rest
      | Some e \<Rightarrow> LogError ''error when encode search attributes'' [TagValue val] # marshalLogs jm rest)"
  by (simp add: marshalLogs_def split: option.split)

lemma lastError_Cons:
  "lastError jm ((k, val) # rest) = (if rest = [] then snd (jm val) else lastError jm rest)"
  by (simp add: lastError_def)

lemma map_add_upd_shift: "f(k \<mapsto> b) ++ g = f ++ ([k \<mapsto> b] ++ g)"
  by (rule ext) (simp add: map_add_def split: option.split)

lemma loop_closed:
  "getSearchAttributes_loop jm attr f e s =
     (f ++ marshalledFields jm attr, (if attr = [] then e else lastError jm attr),
      s\<lparr>logs := logs s @ marshalLogs jm attr\<rparr>)"
proof (induction attr arbitrary: f e s)
  case Nil
  then show ?case by (simp add: marshalledFields_Nil marshalLogs_Nil)
next
  case (Cons x rest)
  obtain k val where x: "x = (k, val)" by (cases x)
  obtain b er where j: "jm val = (b, er)" by (cases "jm val")
  show ?case
  proof (cases er)
    case None
    have "getSearchAttributes_loop jm (x # rest) f e s =
            getSearchAttributes_loop jm rest (f(k \<mapsto> b)) None s"
      using x j None by simp
    also have "\<dots> = (f(k \<mapsto> b) ++ marshalledFields jm rest,
                      (if rest = [] then None else lastError jm rest),
                      s\<lparr>logs := logs s @ marshalLogs jm rest\<rparr>)"
      by (rule Cons.IH)
    also have "f(k \<mapsto> b) ++ marshalledFields jm rest = f ++ marshalledFields jm (x # rest)"
      unfolding x using j None map_add_upd_shift[of f k b "marshalledFields jm rest"]
      by (simp only: marshalledFields_Cons snd_conv fst_conv option.case)
    finally show ?thesis
      using x j None by (simp add: marshalLogs_Cons lastError_Cons)
  next
    case (Some a)
    let ?s = "logger_Error ''error when encode search attributes'' [TagValue val] s"
    have "getSearchAttributes_loop jm (x # rest) f e s =
            getSearchAttributes_loop jm rest f (Some a) ?s"
      using x j Some by simp
    also have "\<dots> = (f ++ marshalledFields jm rest,
                      (if rest = [] then Some a else lastError jm rest),
                      ?s\<lparr>logs := logs ?s @ marshalLogs jm rest\<rparr>)"
      by (rule Cons.IH)
    finally show ?thesis
      using x j Some
      by (simp add: marshalLogs_Cons lastError_Cons marshalledFields_Cons logger_Error_def)
  qed
qed

lemma lastError_Nil: "lastError jm [] = None"
  by (simp add: lastError_def)

lemma getSearchAttributes_closed:
  "getSearchAttributes jm v attr s =
     ((searchAttributesOf jm attr, lastError jm attr), s\<lparr>logs := logs s @ marshalLogs jm attr\<rparr>)"
  by (simp add: getSearchAttributes_def loop_closed searchAttributesOf_def lastError_Nil
           split: option.split)

lemma normalised_fields:
  "WorkflowID (normalised r) = WorkflowID r"
  "RunID (normalised r) = RunID r"
  "TypeName (normalised r) = TypeName r"
  "StartTime (normalised r) = StartTime r"
  "CloseTime (normalised r) = CloseTime r"
  "Status (normalised r) = Status r"
  "HistoryLength (normalised r) = HistoryLength r"
  "Memo (normalised r) = Memo r"
  "SearchAttributes (normalised r) = SearchAttributes r"
  by (simp_all add: normalised_def)

lemma normalised_idem: "normalised (normalised r) = normalised r"
  by (simp add: normalised_def)

lemma mset_visited: "mset (visited ord attr) = mset attr"
  by (simp add: visited_def)

lemma set_visited: "set (visited ord attr) = set attr"
  using mset_visited[of ord attr] by (rule mset_eq_setD)

lemma visited_arrangement: "mset ord = mset attr \<Longrightarrow> visited ord attr = ord"
  by (simp add: visited_def)

lemma publicInfo_normalised: "publicInfo jm v ord (normalised r) = publicInfo jm v ord r"
  by (simp add: publicInfo_def normalised_fields normalised_idem cong: option.case_cong)

lemma conversionLogs_normalised:
  "conversionLogs jm v ord (normalised r) = conversionLogs jm v ord r"
  by (simp add: conversionLogs_def normalised_fields cong: option.case_cong)

lemma convert_closed:
  "convertVisibilityWorkflowExecutionInfo jm v ord (Some p) s =
     Inr (publicInfo jm v ord (heap s p),
          s\<lparr>heap := (heap s)(p := normalised (heap s p)),
            logs := logs s @ conversionLogs jm v ord (heap s p)\<rparr>)"
proof -
  obtain memo err where d: "DeserializeVisibilityMemo (serializer v) (Memo (heap s p)) = (memo, err)"
    by (cases "DeserializeVisibilityMemo (serializer v) (Memo (heap s p))")
  show ?thesis
    using d
    by (cases "UnixNano (ExecutionTime (heap s p)) = 0"; cases err;
        cases "lastError jm (visited ord (SearchAttributes (heap s p)))";
        cases "Status (heap s p)";
        simp add: convertVisibilityWorkflowExecutionInfo_def Let_def getSearchAttributes_closed
            publicInfo_def conversionLogs_def normalised_def logger_Error_def
            searchAttributesOf_def)
qed

lemma demo_times:
  "UnixNano \<lparr>unixSec = 0, nsec = 0\<rparr> = 0"
  "UnixNano \<lparr>unixSec = 5, nsec = 0\<rparr> = 5000000000"
  "UnixNano \<lparr>unixSec = 6, nsec = 0\<rparr> = 6000000000"
  "UnixNano \<lparr>unixSec = 7, nsec = 0\<rparr> = 7000000000"
  "UnixNano \<lparr>unixSec = 9, nsec = 0\<rparr> = 9000000000"
  by (simp_all add: UnixNano_def)

lemma lastError_ok:
  assumes "\<forall>x \<in> set attr. snd (jm (snd x)) = None"
  shows "lastError jm attr = None"
proof (cases "attr = []")
  case True
  then show ?thesis by (simp add: lastError_def)
next
  case False
  then have "last attr \<in> set attr" by simp
  with assms False show ?thesis by (simp add: lastError_def)
qed

lemma marshalLogs_ok:
  assumes "\<forall>x \<in> set attr. snd (jm (snd x)) = None"
  shows "marshalLogs jm attr = []"
  using assms by (auto simp: marshalLogs_def filter_empty_conv)

lemma marshalledFields_ok:
  assumes "\<forall>x \<in> set attr. snd (jm (snd x)) = None"
  shows "marshalledFields jm attr = map_of (rev (map (\<lambda>x. (fst x, fst (jm (snd x)))) attr))"
proof -
  have "filter (\<lambda>(k, val). snd (jm val) = None) attr = attr"
    using assms by (auto simp: filter_id_conv)
  then show ?thesis
    by (simp add: marshalledFields_def case_prod_unfold)
qed

lemma serializeMemo_closed:
  "serializeMemo v m domainID wID rID s =
     (Some (case fst (SerializeVisibilityMemo (serializer v) m VisibilityEncoding) of
              None \<Rightarrow> \<lparr>Encoding = [], Data = []\<rparr>
            | Some blob \<Rightarrow> blob),
      case snd (SerializeVisibilityMemo (serializer v) m VisibilityEncoding) of
        None \<Rightarrow> s
      | Some er \<Rightarrow> logger_Error ''Unable to encode visibility memo''
                    [TagWorkflowDomainID domainID, TagWorkflowID wID,
                     TagWorkflowRunID rID, TagError er] s)"
proof -
  obtain memo err where "SerializeVisibilityMemo (serializer v) m VisibilityEncoding = (memo, err)"
    by (cases "SerializeVisibilityMemo (serializer v) m VisibilityEncoding")
  then show ?thesis
    by (cases memo; cases err) (simp_all add: serializeMemo_def)
qed

lemma serializeMemo_heap: "heap (snd (serializeMemo v m domainID wID rID s)) = heap s"
  by (simp add: serializeMemo_closed logger_Error_def split: option.split)

subsection \<open>The loop over the entries of a response\<close>

lemma publicInfo_cong:
  "normalised r = normalised r' \<Longrightarrow> publicInfo jm v ord r = publicInfo jm v ord r'"
  by (metis publicInfo_normalised)

lemma conversionLogs_cong:
  "normalised r = normalised r' \<Longrightarrow> conversionLogs jm v ord r = conversionLogs jm v ord r'"
  by (metis conversionLogs_normalised)

lemma list_loop_closed:
  "\<exists>s'. convertInternalListResponse_loop jm v ords (map Some ps) s =
           Inr (map (\<lambda>i. Some (publicInfo jm v (ords i) (heap s (ps ! i)))) [0..<length ps], s') \<and>
        (\<forall>a. normalised (heap s' a) = normalised (heap s a)) \<and>
        logs s' = logs s @
          concat (map (\<lambda>i. conversionLogs jm v (ords i) (heap s (ps ! i))) [0..<length ps])"
proof (induction ps arbitrary: s ords)
  case Nil
  then show ?case by simp
next
  case (Cons p ps)
  let ?s1 = "s\<lparr>heap := (heap s)(p := normalised (heap s p)),
               logs := logs s @ conversionLogs jm v (ords 0) (heap s p)\<rparr>"
  have n1: "normalised (heap ?s1 a) = normalised (heap s a)" for a
    by (simp add: normalised_idem)
  obtain s' where
    run: "convertInternalListResponse_loop jm v (\<lambda>i. ords (Suc i)) (map Some ps) ?s1 =
            Inr (map (\<lambda>i. Some (publicInfo jm v (ords (Suc i)) (heap ?s1 (ps ! i))))
                   [0..<length ps], s')"
    and n: "\<forall>a. normalised (heap s' a) = normalised (heap ?s1 a)"
    and l: "logs s' = logs ?s1 @
              concat (map (\<lambda>i. conversionLogs jm v (ords (Suc i)) (heap ?s1 (ps ! i)))
                        [0..<length ps])"
    using Cons.IH[of "\<lambda>i. ords (Suc i)" ?s1] by blast
  have pi: "publicInfo jm v d (heap ?s1 q) = publicInfo jm v d (heap s q)" for d q
    by (rule publicInfo_cong[OF n1])
  have cl: "conversionLogs jm v d (heap ?s1 q) = conversionLogs jm v d (heap s q)" for d q
    by (rule conversionLogs_cong[OF n1])
  have infos: "map (\<lambda>i. Some (publicInfo jm v (ords (Suc i)) (heap ?s1 (ps ! i)))) [0..<length ps] =
               map (\<lambda>i. Some (publicInfo jm v (ords (Suc i)) (heap s (ps ! i)))) [0..<length ps]"
    unfolding pi by (rule refl)
  have ls: "map (\<lambda>i. conversionLogs jm v (ords (Suc i)) (heap ?s1 (ps ! i))) [0..<length ps] =
            map (\<lambda>i. conversionLogs jm v (ords (Suc i)) (heap s (ps ! i))) [0..<length ps]"
    unfolding cl by (rule refl)
  have shape_infos:
    "map (\<lambda>i. Some (publicInfo jm v (ords i) (heap s ((p # ps) ! i)))) [0..<length (p # ps)] =
       Some (publicInfo jm v (ords 0) (heap s p)) #
       map (\<lambda>i. Some (publicInfo jm v (ords (Suc i)) (heap s (ps ! i)))) [0..<length ps]"
    unfolding length_Cons map_upt_Suc by simp
  have shape_logs:
    "concat (map (\<lambda>i. conversionLogs jm v (ords i) (heap s ((p # ps) ! i))) [0..<length (p # ps)]) =
       conversionLogs jm v (ords 0) (heap s p) @
       concat (map (\<lambda>i. conversionLogs jm v (ords (Suc i)) (heap s (ps ! i))) [0..<length ps])"
    unfolding length_Cons map_upt_Suc by simp
  have "convertInternalListResponse_loop jm v ords (map Some (p # ps)) s =
          Inr (map (\<lambda>i. Some (publicInfo jm v (ords i) (heap s ((p # ps) ! i))))
                 [0..<length (p # ps)], s')"
    unfolding shape_infos
    by (simp only: list.map convertInternalListResponse_loop.simps convert_closed sum.case
          prod.case run infos)
  moreover have "\<forall>a. normalised (heap s' a) = normalised (heap s a)"
    using n n1 by simp
  moreover have "logs s' = logs s @
      concat (map (\<lambda>i. conversionLogs jm v (ords i) (heap s ((p # ps) ! i)))
                [0..<length (p # ps)])"
    unfolding shape_logs using l[unfolded ls] by simp
  ultimately show ?case by blast
qed

lemma all_Some_map: "(\<forall>x \<in> set xs. x \<noteq> None) \<Longrightarrow> xs = map Some (map the xs)"
  by (induction xs) auto

lemma list_contract_holds:
  assumes "out = (case answer of
             ((internalResp, err), s1) \<Rightarrow>
               (case err of
                  Some e \<Rightarrow> Inr ((None, Some e), s1)
                | None \<Rightarrow>
                    (case convertInternalListResponse jm v ords internalResp s1 of
                       Inl pn \<Rightarrow> Inl pn
                     | Inr (resp, s2) \<Rightarrow> Inr ((resp, None), s2))))"
  shows "list_contract jm v ords answer out"
proof -
  obtain internalResp err s1 where a: "answer = ((internalResp, err), s1)"
    by (cases answer) auto
  show ?thesis
  proof (cases err)
    case (Some e)
    then show ?thesis using assms a by (simp add: list_contract_def)
  next
    case None
    note e = None
    show ?thesis
    proof (cases internalResp)
      case None
      then show ?thesis
        using assms a e by (simp add: list_contract_def convertInternalListResponse_def)
    next
      case (Some ir)
      have "\<exists>resp s2.
              out = Inr ((Some resp, None), s2) \<and>
              NextPageToken resp = NextPageToken_internal ir \<and>
              length (Executions resp) = length (Executions_internal ir) \<and>
              (\<forall>i < length (Executions_internal ir).
                 \<exists>c s'. convertVisibilityWorkflowExecutionInfo jm v (ords i)
                           (Executions_internal ir ! i) s1 = Inr (c, s') \<and>
                        Executions resp ! i = Some c)"
        if nn: "\<forall>x \<in> set (Executions_internal ir). x \<noteq> None"
      proof -
        let ?ps = "map the (Executions_internal ir)"
        let ?cs = "map (\<lambda>i. Some (publicInfo jm v (ords i) (heap s1 (?ps ! i)))) [0..<length ?ps]"
        have xs: "Executions_internal ir = map Some ?ps"
          using nn by (rule all_Some_map)
        obtain s2 where
          run: "convertInternalListResponse_loop jm v ords (map Some ?ps) s1 = Inr (?cs, s2)"
          using list_loop_closed[of jm v ords ?ps s1] by blast
        let ?resp = "\<lparr>Executions = ?cs, NextPageToken = NextPageToken_internal ir\<rparr>"
        have o: "out = Inr ((Some ?resp, None), s2)"
          using assms a e Some run xs
          by (simp add: convertInternalListResponse_def)
        have each: "\<exists>c s'. convertVisibilityWorkflowExecutionInfo jm v (ords i)
                           (Executions_internal ir ! i) s1 = Inr (c, s') \<and>
                        Executions ?resp ! i = Some c"
          if "i < length (Executions_internal ir)" for i
        proof -
          have "Executions_internal ir ! i = Some (?ps ! i)"
            using that xs by (metis length_map nth_map)
          then obtain p where p: "Executions_internal ir ! i = Some p" and q: "?ps ! i = p"
            by simp
          have "?cs ! i = Some (publicInfo jm v (ords i) (heap s1 p))"
            using that q by simp
          then show ?thesis
            by (simp add: p convert_closed)
        qed
        show ?thesis
          using o each by (intro exI[of _ ?resp] exI[of _ s2]) simp
      qed
      then show ?thesis
        using a e Some by (simp add: list_contract_def)
    qed
  qed
qed

subsection \<open>Degraded records\<close>

lemma marshalLogs_mem:
  assumes "x \<in> set attr" and "snd (jm (snd x)) \<noteq> None"
  shows "LogError ''error when encode search attributes'' [TagValue (snd x)] \<in> set (marshalLogs jm attr)"
proof -
  have "x \<in> set (filter (\<lambda>(k, val). snd (jm val) \<noteq> None) attr)"
    using assms by (simp add: case_prod_unfold)
  then have "(\<lambda>(k, val). LogError ''error when encode search attributes'' [TagValue val]) x
      \<in> set (marshalLogs jm attr)"
    unfolding marshalLogs_def set_map by (rule imageI)
  then show ?thesis by (simp add: case_prod_unfold)
qed

lemma marshalledFields_Some:
  assumes "marshalledFields jm attr k = Some b"
  shows "\<exists>val. (k, val) \<in> set attr \<and> jm val = (b, None)"
proof -
  have "(k, b) \<in> set (rev (map (\<lambda>(k, val). (k, fst (jm val)))
                  (filter (\<lambda>(k, val). snd (jm val) = None) attr)))"
    using assms unfolding marshalledFields_def by (rule map_of_SomeD)
  then obtain x where x: "x \<in> set attr" "snd (jm (snd x)) = None" "k = fst x" "b = fst (jm (snd x))"
    by (auto simp: case_prod_unfold)
  then have "(k, snd x) \<in> set attr \<and> jm (snd x) = (b, None)"
    by (simp add: prod_eq_iff)
  then show ?thesis by blast
qed

lemma degraded_publicInfo:
  assumes "set (conversionLogs jm v ord r) \<subseteq> set written"
  shows "degraded jm v r (publicInfo jm v ord r) written"
proof -
  let ?attr = "visited ord (SearchAttributes r)"
  have same: "set ?attr = set (SearchAttributes r)"
    by (rule set_visited)
  have memo: "Memo_info (publicInfo jm v ord r) = m \<and>
      LogError ''failed to deserialize memo''
        [TagWorkflowID (WorkflowID r), TagWorkflowRunID (RunID r), TagError er] \<in> set written"
    if "DeserializeVisibilityMemo (serializer v) (Memo r) = (m, Some er)" for m er
  proof -
    have "LogError ''failed to deserialize memo''
        [TagWorkflowID (WorkflowID r), TagWorkflowRunID (RunID r), TagError er]
        \<in> set (conversionLogs jm v ord r)"
      using that by (simp add: conversionLogs_def)
    with assms that show ?thesis by (auto simp: publicInfo_def)
  qed
  have memo_ok: "Memo_info (publicInfo jm v ord r) = m"
    if "DeserializeVisibilityMemo (serializer v) (Memo r) = (m, None)" for m
    using that by (simp add: publicInfo_def)
  have logged: "LogError ''error when encode search attributes'' [TagValue (snd x)] \<in> set written"
    if "x \<in> set (SearchAttributes r)" "snd (jm (snd x)) \<noteq> None" for x
  proof -
    have "x \<in> set ?attr" using that(1) same by simp
    then have "LogError ''error when encode search attributes'' [TagValue (snd x)]
        \<in> set (marshalLogs jm ?attr)"
      using that(2) by (rule marshalLogs_mem)
    then have "LogError ''error when encode search attributes'' [TagValue (snd x)]
        \<in> set (conversionLogs jm v ord r)"
      by (simp add: conversionLogs_def)
    with assms show ?thesis by auto
  qed
  have only: "\<exists>val. (k, val) \<in> set (SearchAttributes r) \<and> jm val = (b, None)"
    if "SearchAttributes_info (publicInfo jm v ord r) = Some sa" "IndexedFields sa k = Some b"
    for sa k b
  proof -
    have "sa = \<lparr>IndexedFields = marshalledFields jm ?attr\<rparr>"
      using that(1) by (simp add: publicInfo_def searchAttributesOf_def split: option.splits)
    with that(2) have "marshalledFields jm ?attr k = Some b" by simp
    then have "\<exists>val. (k, val) \<in> set ?attr \<and> jm val = (b, None)"
      by (rule marshalledFields_Some)
    then show ?thesis unfolding same .
  qed
  have all_ok: "\<exists>sa. SearchAttributes_info (publicInfo jm v ord r) = Some sa \<and>
      fst ` set (SearchAttributes r) \<subseteq> dom (IndexedFields sa)"
    if "\<forall>x \<in> set (SearchAttributes r). snd (jm (snd x)) = None"
  proof -
    have ok: "\<forall>x \<in> set ?attr. snd (jm (snd x)) = None"
      using that unfolding same .
    have "dom (marshalledFields jm ?attr) = fst ` set ?attr"
      by (simp add: marshalledFields_ok[OF ok] dom_map_of_conv_image_fst image_image)
    then have "dom (marshalledFields jm ?attr) = fst ` set (SearchAttributes r)"
      unfolding same .
    then show ?thesis
      by (simp add: publicInfo_def searchAttributesOf_def lastError_ok[OF ok])
  qed
  have plain:
    "Execution (publicInfo jm v ord r) = Some \<lparr>WorkflowId = WorkflowID r, RunId = RunID r\<rparr>"
    "Type (publicInfo jm v ord r) = Some \<lparr>Name = TypeName r\<rparr>"
    "StartTime_info (publicInfo jm v ord r) = Some \<lparr>Value = UnixNano (StartTime r)\<rparr>"
    "ExecutionTime_info (publicInfo jm v ord r) =
        (if UnixNano (ExecutionTime r) = 0 then UnixNano (StartTime r)
         else UnixNano (ExecutionTime r))"
    by (simp_all add: publicInfo_def normalised_def)
  have closing: "(case Status r of
         None \<Rightarrow> CloseTime_info (publicInfo jm v ord r) = None \<and>
           CloseStatus (publicInfo jm v ord r) = 0 \<and>
           HistoryLength_info (publicInfo jm v ord r) = 0
       | Some st \<Rightarrow>
           CloseTime_info (publicInfo jm v ord r) = Some \<lparr>Value = UnixNano (CloseTime r)\<rparr> \<and>
           CloseStatus (publicInfo jm v ord r) = st \<and>
           HistoryLength_info (publicInfo jm v ord r) = HistoryLength r)"
    by (simp add: publicInfo_def split: option.split)
  show ?thesis
    unfolding degraded_def
    using memo memo_ok logged only all_ok plain closing by blast
qed

lemma list_degrades_holds:
  assumes "out = (case answer of
             ((internalResp, err), s1) \<Rightarrow>
               (case err of
                  Some e \<Rightarrow> Inr ((None, Some e), s1)
                | None \<Rightarrow>
                    (case convertInternalListResponse jm v ords internalResp s1 of
                       Inl pn \<Rightarrow> Inl pn
                     | Inr (resp, s2) \<Rightarrow> Inr ((resp, None), s2))))"
  shows "list_degrades jm v answer out"
proof -
  obtain internalResp err s1 where a: "answer = ((internalResp, err), s1)"
    by (cases answer) auto
  show ?thesis
  proof (cases err)
    case (Some e)
    then show ?thesis using assms a by (simp add: list_degrades_def)
  next
    case None
    note e = None
    show ?thesis
    proof (cases internalResp)
      case None
      then show ?thesis
        using assms a e by (simp add: list_degrades_def convertInternalListResponse_def)
    next
      case (Some ir)
      have "\<exists>resp s2.
              out = Inr ((Some resp, None), s2) \<and>
              length (Executions resp) = length (Executions_internal ir) \<and>
              (\<forall>i < length (Executions_internal ir).
                 \<exists>p c. Executions_internal ir ! i = Some p \<and>
                       Executions resp ! i = Some c \<and>
                       degraded jm v (heap s1 p) c (logs s2))"
        if nn: "\<forall>x \<in> set (Executions_internal ir). x \<noteq> None"
      proof -
        let ?ps = "map the (Executions_internal ir)"
        let ?cs = "map (\<lambda>i. Some (publicInfo jm v (ords i) (heap s1 (?ps ! i)))) [0..<length ?ps]"
        have xs: "Executions_internal ir = map Some ?ps"
          using nn by (rule all_Some_map)
        obtain s2 where
          run: "convertInternalListResponse_loop jm v ords (map Some ?ps) s1 = Inr (?cs, s2)"
          and l: "logs s2 = logs s1 @
            concat (map (\<lambda>i. conversionLogs jm v (ords i) (heap s1 (?ps ! i))) [0..<length ?ps])"
          using list_loop_closed[of jm v ords ?ps s1] by blast
        let ?resp = "\<lparr>Executions = ?cs, NextPageToken = NextPageToken_internal ir\<rparr>"
        have o: "out = Inr ((Some ?resp, None), s2)"
          using assms a e Some run xs
          by (simp add: convertInternalListResponse_def)
        have each: "\<exists>p c. Executions_internal ir ! i = Some p \<and>
                       Executions ?resp ! i = Some c \<and>
                       degraded jm v (heap s1 p) c (logs s2)"
          if i: "i < length (Executions_internal ir)" for i
        proof -
          have "Executions_internal ir ! i = Some (?ps ! i)"
            using i xs by (metis length_map nth_map)
          then obtain p where p: "Executions_internal ir ! i = Some p" and q: "?ps ! i = p"
            by simp
          have "i \<in> set [0..<length ?ps]"
            using i by simp
          then have "set (conversionLogs jm v (ords i) (heap s1 (?ps ! i))) \<subseteq> set (logs s2)"
            unfolding l by auto
          then have "degraded jm v (heap s1 (?ps ! i))
                       (publicInfo jm v (ords i) (heap s1 (?ps ! i))) (logs s2)"
            by (rule degraded_publicInfo)
          moreover have "?cs ! i = Some (publicInfo jm v (ords i) (heap s1 (?ps ! i)))"
            using i by simp
          ultimately show ?thesis
            using q by (simp add: p)
        qed
        show ?thesis
          using o each by (intro exI[of _ ?resp] exI[of _ s2]) simp
      qed
      then show ?thesis
        using a e Some by (simp add: list_degrades_def)
    qed
  qed
qed

lemma get_degrades_holds:
  "get_degrades jm v (store_GetClosedWorkflowExecution (persistence v) request s)
     (GetClosedWorkflowExecution jm v ord request s)"
proof -
  obtain internalResp err s1 where
    a: "store_GetClosedWorkflowExecution (persistence v) request s = ((internalResp, err), s1)"
    by (cases "store_GetClosedWorkflowExecution (persistence v) request s") auto
  show ?thesis
  proof (cases err)
    case (Some e)
    then show ?thesis
      by (simp add: get_degrades_def GetClosedWorkflowExecution_def a)
  next
    case None
    note e = None
    show ?thesis
    proof (cases internalResp)
      case None
      then show ?thesis
        by (simp add: get_degrades_def GetClosedWorkflowExecution_def a e
              convertInternalGetResponse_def)
    next
      case (Some ir)
      show ?thesis
      proof (cases "Execution_internal ir")
        case None
        then show ?thesis
          by (simp add: get_degrades_def a e Some)
      next
        case (Some p)
        have "degraded jm v (heap s1 p) (publicInfo jm v ord (heap s1 p))
                (logs s1 @ conversionLogs jm v ord (heap s1 p))"
          by (rule degraded_publicInfo) simp
        then show ?thesis
          using Some \<open>internalResp = Some ir\<close>
          by (simp add: get_degrades_def GetClosedWorkflowExecution_def a e
                convertInternalGetResponse_def convert_closed)
      qed
    qed
  qed
qed

lemma degraded_identity:
  "degraded jm v r c written \<Longrightarrow>
     Execution c = Some \<lparr>WorkflowId = WorkflowID r, RunId = RunID r\<rparr>"
  by (simp add: degraded_def)

lemma degraded_memo:
  "degraded jm v r c written \<Longrightarrow>
   DeserializeVisibilityMemo (serializer v) (Memo r) = (m, Some er) \<Longrightarrow>
     Memo_info c = m \<and>
     LogError ''failed to deserialize memo''
       [TagWorkflowID (WorkflowID r), TagWorkflowRunID (RunID r), TagError er] \<in> set written"
  by (simp add: degraded_def)

lemma degraded_logged:
  "degraded jm v r c written \<Longrightarrow> x \<in> set (SearchAttributes r) \<Longrightarrow>
   snd (jm (snd x)) \<noteq> None \<Longrightarrow>
     LogError ''error when encode search attributes'' [TagValue (snd x)] \<in> set written"
  unfolding degraded_def by (elim conjE) (drule (1) bspec, simp)

subsection \<open>The sample values, evaluated\<close>

lemma demo_contract:
  assumes "list_contract demo_marshal demo_manager ords
             ((Some demo_response, None), demo_state) out"
  shows "\<exists>resp s2. out = Inr ((Some resp, None), s2) \<and> NextPageToken resp = [7] \<and>
           length (Executions resp) = 3"
  using assms by (auto simp: list_contract_def demo_response_def)

lemma demo_degrades:
  assumes "list_degrades demo_marshal demo_manager ((Some demo_response, None), demo_state) out"
  shows "\<exists>resp s2 c. out = Inr ((Some resp, None), s2) \<and> length (Executions resp) = 3 \<and>
           Executions resp ! 1 = Some c \<and>
           Execution c = Some \<lparr>WorkflowId = ''wf-1'', RunId = ''run-1''\<rparr> \<and>
           Memo_info c = None \<and>
           LogError ''failed to deserialize memo''
             [TagWorkflowID ''wf-1'', TagWorkflowRunID ''run-1'',
              TagError (GoError ''unknown encoding'')] \<in> set (logs s2) \<and>
           LogError ''error when encode search attributes'' [TagValue 0] \<in> set (logs s2)"
proof -
  obtain resp s2 where o: "out = Inr ((Some resp, None), s2)"
    and n: "length (Executions resp) = 3"
    and each: "\<forall>i < 3. \<exists>p c. [Some 0, Some 1, Some 0] ! i = Some p \<and>
                 Executions resp ! i = Some c \<and>
                 degraded demo_marshal demo_manager (heap demo_state p) c (logs s2)"
    using assms by (auto simp: list_degrades_def demo_response_def)
  have r: "heap demo_state (Suc 0) = demo_closed"
    by (simp add: demo_state_def)
  obtain c where c: "Executions resp ! 1 = Some c"
    and d: "degraded demo_marshal demo_manager demo_closed c (logs s2)"
    using each[rule_format, of 1] by (auto simp: r)
  have m: "DeserializeVisibilityMemo (serializer demo_manager) (Memo demo_closed) =
             (None, Some (GoError ''unknown encoding''))"
    by (simp add: demo_manager_def demo_serializer_def demo_closed_def)
  have x: "(''a'', 0) \<in> set (SearchAttributes demo_closed)"
    "snd (demo_marshal (snd (''a'', 0::nat))) \<noteq> None"
    by (simp_all add: demo_closed_def demo_marshal_def)
  have ids: "WorkflowID demo_closed = ''wf-1''" "RunID demo_closed = ''run-1''"
    by (simp_all add: demo_closed_def)
  have "Execution c = Some \<lparr>WorkflowId = ''wf-1'', RunId = ''run-1''\<rparr>"
    using degraded_identity[OF d] by (simp only: ids)
  moreover have "Memo_info c = None \<and>
           LogError ''failed to deserialize memo''
             [TagWorkflowID ''wf-1'', TagWorkflowRunID ''run-1'',
              TagError (GoError ''unknown encoding'')] \<in> set (logs s2)"
    using degraded_memo[OF d m] by (simp only: ids)
  moreover have "LogError ''error when encode search attributes'' [TagValue 0] \<in> set (logs s2)"
    using degraded_logged[OF d x] by (simp only: snd_conv)
  ultimately show ?thesis
    using o n c by (intro exI[of _ resp] exI[of _ s2] exI[of _ c]) simp
qed

lemma demo_get_degrades:
  assumes "get_degrades demo_marshal demo_manager
             ((Some \<lparr>Execution_internal = Some 1\<rparr>, None), demo_state) out"
  shows "\<exists>resp s2 c. out = Inr ((Some resp, None), s2) \<and> Execution_closed resp = Some c \<and>
           Execution c = Some \<lparr>WorkflowId = ''wf-1'', RunId = ''run-1''\<rparr> \<and>
           Memo_info c = None \<and>
           LogError ''failed to deserialize memo''
             [TagWorkflowID ''wf-1'', TagWorkflowRunID ''run-1'',
              TagError (GoError ''unknown encoding'')] \<in> set (logs s2) \<and>
           LogError ''error when encode search attributes'' [TagValue 0] \<in> set (logs s2)"
proof -
  have r: "heap demo_state (Suc 0) = demo_closed"
    by (simp add: demo_state_def)
  obtain resp s2 c where o: "out = Inr ((Some resp, None), s2)"
    and c: "Execution_closed resp = Some c"
    and d: "degraded demo_marshal demo_manager demo_closed c (logs s2)"
    using assms by (auto simp: get_degrades_def r)
  have m: "DeserializeVisibilityMemo (serializer demo_manager) (Memo demo_closed) =
             (None, Some (GoError ''unknown encoding''))"
    by (simp add: demo_manager_def demo_serializer_def demo_closed_def)
  have x: "(''a'', 0) \<in> set (SearchAttributes demo_closed)"
    "snd (demo_marshal (snd (''a'', 0::nat))) \<noteq> None"
    by (simp_all add: demo_closed_def demo_marshal_def)
  have ids: "WorkflowID demo_closed = ''wf-1''" "RunID demo_closed = ''run-1''"
    by (simp_all add: demo_closed_def)
  have "Execution c = Some \<lparr>WorkflowId = ''wf-1'', RunId = ''run-1''\<rparr>"
    using degraded_identity[OF d] by (simp only: ids)
  moreover have "Memo_info c = None \<and>
           LogError ''failed to deserialize memo''
             [TagWorkflowID ''wf-1'', TagWorkflowRunID ''run-1'',
              TagError (GoError ''unknown encoding'')] \<in> set (logs s2)"
    using degraded_memo[OF d m] by (simp only: ids)
  moreover have "LogError ''error when encode search attributes'' [TagValue 0] \<in> set (logs s2)"
    using degraded_logged[OF d x] by (simp only: snd_conv)
  ultimately show ?thesis
    using o c by (intro exI[of _ resp] exI[of _ s2] exI[of _ c]) simp
qed

lemma demo_arrangements:
  "visited [(''a'', 0), (''b'', 1)] (SearchAttributes demo_open) = [(''a'', 0::nat), (''b'', 1)]"
  "visited [(''b'', 1), (''a'', 0)] (SearchAttributes demo_open) = [(''b'', 1::nat), (''a'', 0)]"
  "visited [(''b'', 1), (''a'', 0)] (SearchAttributes demo_closed) = [(''b'', 1::nat), (''a'', 0)]"
  by (simp_all add: visited_def demo_open_def demo_closed_def add_mset_commute)

lemma demo_list_run:
  "\<exists>s2. ListOpenWorkflowExecutions demo_marshal demo_manager demo_draws () demo_state =
          Inr ((Some \<lparr>Executions =
                        [Some (publicInfo demo_marshal demo_manager
                                 [(''a'', 0), (''b'', 1)] demo_open),
                         Some (publicInfo demo_marshal demo_manager
                                 [(''b'', 1), (''a'', 0)] demo_closed),
                         Some (publicInfo demo_marshal demo_manager
                                 [(''b'', 1), (''a'', 0)] demo_open)],
                      NextPageToken = [7]\<rparr>, None), s2)"
proof -
  have answer: "store_ListOpenWorkflowExecutions (persistence demo_manager) () demo_state =
      ((Some demo_response, None), demo_state)"
    by (simp add: demo_manager_def demo_store_def demo_list_def)
  have records: "heap demo_state 0 = demo_open" "heap demo_state (Suc 0) = demo_closed"
    by (simp_all add: demo_state_def)
  have draws: "demo_draws 0 = [(''a'', 0), (''b'', 1)]"
    "demo_draws (Suc 0) = [(''b'', 1), (''a'', 0)]"
    "demo_draws (Suc (Suc 0)) = [(''b'', 1), (''a'', 0)]"
    by (simp_all add: demo_draws_def)
  have entries: "Executions_internal demo_response = map Some [0, 1, 0]"
    by (simp add: demo_response_def)
  obtain s2 where
    "convertInternalListResponse_loop demo_marshal demo_manager demo_draws
       (map Some [0, 1, 0]) demo_state =
       Inr (map (\<lambda>i. Some (publicInfo demo_marshal demo_manager (demo_draws i)
                            (heap demo_state ([0, 1, 0] ! i)))) [0..<length [0::nat, 1, 0]], s2)"
    using list_loop_closed[of demo_marshal demo_manager demo_draws "[0, 1, 0]" demo_state]
    by blast
  then have run: "convertInternalListResponse_loop demo_marshal demo_manager demo_draws
       (Executions_internal demo_response) demo_state =
     Inr ([Some (publicInfo demo_marshal demo_manager [(''a'', 0), (''b'', 1)] demo_open),
           Some (publicInfo demo_marshal demo_manager [(''b'', 1), (''a'', 0)] demo_closed),
           Some (publicInfo demo_marshal demo_manager [(''b'', 1), (''a'', 0)] demo_open)], s2)"
    unfolding entries by (simp add: records draws)
  have "ListOpenWorkflowExecutions demo_marshal demo_manager demo_draws () demo_state =
          Inr ((Some \<lparr>Executions =
                        [Some (publicInfo demo_marshal demo_manager
                                 [(''a'', 0), (''b'', 1)] demo_open),
                         Some (publicInfo demo_marshal demo_manager
                                 [(''b'', 1), (''a'', 0)] demo_closed),
                         Some (publicInfo demo_marshal demo_manager
                                 [(''b'', 1), (''a'', 0)] demo_open)],
                      NextPageToken = [7]\<rparr>, None), s2)"
    unfolding ListOpenWorkflowExecutions_def answer convertInternalListResponse_def
    by (simp add: run) (simp add: demo_response_def)
  then show ?thesis ..
qed

lemma demo_searchAttributes:
  "SearchAttributes_info (publicInfo demo_marshal demo_manager [(''a'', 0), (''b'', 1)] demo_open) =
     Some \<lparr>IndexedFields = [''b'' \<mapsto> [1]]\<rparr>"
  "SearchAttributes_info (publicInfo demo_marshal demo_manager [(''b'', 1), (''a'', 0)] demo_closed) =
     None"
  "SearchAttributes_info (publicInfo demo_marshal demo_manager [(''b'', 1), (''a'', 0)] demo_open) =
     None"
  by (simp_all only: publicInfo_def searchAttributesOf_def demo_arrangements)
    (simp_all add: lastError_def marshalledFields_def demo_marshal_def)

subsection \<open>The conversion of one record\<close>

text \<open>
  Claim C1. The conversion of a record returns, and the execution time it reports is the
  Unix nanoseconds of the record's \<open>StartTime\<close> when the record's \<open>ExecutionTime\<close> reads
  zero nanoseconds, and the Unix nanoseconds of the record's own \<open>ExecutionTime\<close>
  otherwise.
\<close>

theorem convert_execution_time:
  "\<exists>c s'. convertVisibilityWorkflowExecutionInfo jm v ord (Some p) s = Inr (c, s') \<and>
     ExecutionTime_info c =
       (if UnixNano (ExecutionTime (heap s p)) = 0 then UnixNano (StartTime (heap s p))
        else UnixNano (ExecutionTime (heap s p)))"
  by (simp add: convert_closed publicInfo_def normalised_def)

theorem convert_execution_time_witness:
  "(\<exists>c s'. convertVisibilityWorkflowExecutionInfo demo_marshal demo_manager (demo_draws 0)
              (Some 0) demo_state
              = Inr (c, s') \<and> ExecutionTime_info c = 5000000000) \<and>
   (\<exists>c s'. convertVisibilityWorkflowExecutionInfo demo_marshal demo_manager (demo_draws 1)
              (Some 1) demo_state
              = Inr (c, s') \<and> ExecutionTime_info c = 7000000000)"
  using convert_execution_time[of demo_marshal demo_manager "demo_draws 0" 0 demo_state]
    convert_execution_time[of demo_marshal demo_manager "demo_draws 1" 1 demo_state]
  by (simp add: demo_state_def demo_open_def demo_closed_def demo_times)

text \<open>
  Claim C9. The conversion of a record returns, and the close-only fields of the result
  come from the record exactly when the record has a status: with a status, \<open>CloseTime\<close>
  is the Unix nanoseconds of the record's close time, \<open>CloseStatus\<close> the status and
  \<open>HistoryLength\<close> the record's history length; without one, \<open>CloseTime\<close> is nil and
  \<open>CloseStatus\<close> and \<open>HistoryLength\<close> are zero.
\<close>

theorem convert_close_fields:
  "\<exists>c s'. convertVisibilityWorkflowExecutionInfo jm v ord (Some p) s = Inr (c, s') \<and>
     (case Status (heap s p) of
        None \<Rightarrow> CloseTime_info c = None \<and> CloseStatus c = 0 \<and> HistoryLength_info c = 0
      | Some st \<Rightarrow>
          CloseTime_info c = Some \<lparr>Value = UnixNano (CloseTime (heap s p))\<rparr> \<and>
          CloseStatus c = st \<and> HistoryLength_info c = HistoryLength (heap s p))"
  by (simp add: convert_closed publicInfo_def split: option.split)

theorem convert_close_fields_witness:
  "(\<exists>c s'. convertVisibilityWorkflowExecutionInfo demo_marshal demo_manager (demo_draws 0)
              (Some 0) demo_state
              = Inr (c, s') \<and>
            CloseTime_info c = None \<and> CloseStatus c = 0 \<and> HistoryLength_info c = 0) \<and>
   (\<exists>c s'. convertVisibilityWorkflowExecutionInfo demo_marshal demo_manager (demo_draws 1)
              (Some 1) demo_state
              = Inr (c, s') \<and>
            CloseTime_info c = Some \<lparr>Value = 9000000000\<rparr> \<and> CloseStatus c = 2 \<and>
            HistoryLength_info c = 11)"
  using convert_close_fields[of demo_marshal demo_manager "demo_draws 0" 0 demo_state]
    convert_close_fields[of demo_marshal demo_manager "demo_draws 1" 1 demo_state]
  by (simp add: demo_state_def demo_open_def demo_closed_def demo_times)

text \<open>
  Claim C6, as stated, fails: the conversion writes to the record it is given. On the
  sample open record, whose \<open>ExecutionTime\<close> reads zero nanoseconds and whose
  \<open>StartTime\<close> is five seconds after the epoch, the conversion returns and the record's
  \<open>ExecutionTime\<close> is five seconds after the epoch afterwards.
\<close>

theorem convert_overwrites_counterexample:
  "\<not> isl (convertVisibilityWorkflowExecutionInfo demo_marshal demo_manager (demo_draws 0)
              (Some 0) demo_state) \<and>
   ExecutionTime (heap demo_state 0) = \<lparr>unixSec = 0, nsec = 0\<rparr> \<and>
   ExecutionTime (heap (snd (projr
     (convertVisibilityWorkflowExecutionInfo demo_marshal demo_manager (demo_draws 0)
              (Some 0) demo_state))) 0) =
     \<lparr>unixSec = 5, nsec = 0\<rparr>"
  by (simp add: convert_closed normalised_def demo_state_def demo_open_def demo_times)

text \<open>
  Claim C6, amended. The conversion of a record returns and leaves every record of the
  heap as it was, except that the \<open>ExecutionTime\<close> of the converted record is overwritten
  with its \<open>StartTime\<close> when it reads zero nanoseconds. Every other field of the
  converted record is unchanged, and so is its \<open>ExecutionTime\<close> when that does not read
  zero.
\<close>

theorem convert_frame:
  "\<exists>c s'. convertVisibilityWorkflowExecutionInfo jm v ord (Some p) s = Inr (c, s') \<and>
     heap s' = (heap s)(p := (heap s p)\<lparr>ExecutionTime :=
        (if UnixNano (ExecutionTime (heap s p)) = 0 then StartTime (heap s p)
         else ExecutionTime (heap s p))\<rparr>)"
  by (simp add: convert_closed normalised_def)

theorem convert_frame_witness:
  "(\<exists>c s'. convertVisibilityWorkflowExecutionInfo demo_marshal demo_manager (demo_draws 1)
              (Some 1) demo_state
              = Inr (c, s') \<and> heap s' 0 = demo_open \<and> heap s' 1 = demo_closed) \<and>
   (\<exists>c s'. convertVisibilityWorkflowExecutionInfo demo_marshal demo_manager (demo_draws 0)
              (Some 0) demo_state
              = Inr (c, s') \<and>
            heap s' 0 = demo_open\<lparr>ExecutionTime := \<lparr>unixSec = 5, nsec = 0\<rparr>\<rparr> \<and>
            heap s' 1 = demo_closed)"
  using convert_frame[of demo_marshal demo_manager "demo_draws 1" 1 demo_state]
    convert_frame[of demo_marshal demo_manager "demo_draws 0" 0 demo_state]
  by (auto simp: demo_state_def demo_open_def demo_closed_def demo_times)

subsection \<open>Search attributes\<close>

text \<open>
  Claim C8. When every value of the map marshals without error, \<open>getSearchAttributes\<close>
  returns no error and search attributes whose indexed fields have the keys of the map
  and no others, each with the marshalled bytes of its value; nothing is logged. The keys
  of a Go map are distinct, whatever the order the loop visits them in.
\<close>

theorem getSearchAttributes_all_marshalled:
  assumes "\<forall>x \<in> set attr. snd (jm (snd x)) = None"
    and "distinct (map fst attr)"
  shows "\<exists>sa. getSearchAttributes jm v attr s = ((Some sa, None), s) \<and>
           dom (IndexedFields sa) = fst ` set attr \<and>
           (\<forall>x \<in> set attr. IndexedFields sa (fst x) = Some (fst (jm (snd x))))"
proof -
  let ?xs = "rev (map (\<lambda>x. (fst x, fst (jm (snd x)))) attr)"
  have fst_xs: "map fst ?xs = rev (map fst attr)"
    by (simp add: rev_map comp_def)
  have d: "distinct (map fst ?xs)"
    using assms(2) by (simp only: fst_xs distinct_rev)
  have dom: "dom (map_of ?xs) = fst ` set attr"
    by (simp add: dom_map_of_conv_image_fst image_image)
  have val: "map_of ?xs (fst x) = Some (fst (jm (snd x)))" if "x \<in> set attr" for x
  proof -
    have "(fst x, fst (jm (snd x))) \<in> set ?xs" using that by auto
    with d show ?thesis by (rule map_of_is_SomeI)
  qed
  show ?thesis
    using dom val
    by (simp add: getSearchAttributes_closed searchAttributesOf_def lastError_ok[OF assms(1)]
          marshalLogs_ok[OF assms(1)] marshalledFields_ok[OF assms(1)])
qed

theorem getSearchAttributes_all_marshalled_witness:
  "\<exists>sa. getSearchAttributes demo_marshal demo_manager [(''x'', 3), (''y'', 4)] demo_state =
          ((Some sa, None), demo_state) \<and>
        dom (IndexedFields sa) = {''x'', ''y''} \<and>
        IndexedFields sa ''x'' = Some [3] \<and> IndexedFields sa ''y'' = Some [4]"
  using getSearchAttributes_all_marshalled
    [of "[(''x'', 3), (''y'', 4)]" demo_marshal demo_manager demo_state]
  by (simp add: demo_marshal_def)

subsection \<open>The memo of a write request\<close>

text \<open>
  Claim C10. \<open>serializeMemo\<close> returns for every serializer and every memo, what it
  returns is never nil, and it touches no record. When the serializer yields nil, the
  blob returned is the empty one and nothing is logged; when it yields an error, which
  comes with no blob, the blob returned is the empty one and the error is logged. So the
  request that a started, closed or upsert operation hands to the store always has a memo
  blob.
\<close>

theorem serializeMemo_never_nil:
  "(\<exists>b s'. serializeMemo v m domainID wID rID s = (Some b, s') \<and> heap s' = heap s \<and>
     (SerializeVisibilityMemo (serializer v) m VisibilityEncoding = (None, None) \<longrightarrow>
        b = \<lparr>Encoding = [], Data = []\<rparr> \<and> s' = s) \<and>
     (\<forall>er. SerializeVisibilityMemo (serializer v) m VisibilityEncoding = (None, Some er) \<longrightarrow>
        b = \<lparr>Encoding = [], Data = []\<rparr> \<and>
        s' = logger_Error ''Unable to encode visibility memo''
               [TagWorkflowDomainID domainID, TagWorkflowID wID, TagWorkflowRunID rID,
                TagError er] s)) \<and>
   (\<exists>req s1. RecordWorkflowExecutionStarted v (Some r) s =
        Inr (store_RecordWorkflowExecutionStarted (persistence v) req s1) \<and>
      Memo_IS req \<noteq> None) \<and>
   (\<exists>req s1. RecordWorkflowExecutionClosed v (Some rc) s =
        Inr (store_RecordWorkflowExecutionClosed (persistence v) req s1) \<and>
      Memo_IC req \<noteq> None) \<and>
   (\<exists>req s1. UpsertWorkflowExecution v (Some ru) s =
        Inr (store_UpsertWorkflowExecution (persistence v) req s1) \<and>
      Memo_IU req \<noteq> None)"
proof (intro conjI)
  show "\<exists>b s'. serializeMemo v m domainID wID rID s = (Some b, s') \<and> heap s' = heap s \<and>
     (SerializeVisibilityMemo (serializer v) m VisibilityEncoding = (None, None) \<longrightarrow>
        b = \<lparr>Encoding = [], Data = []\<rparr> \<and> s' = s) \<and>
     (\<forall>er. SerializeVisibilityMemo (serializer v) m VisibilityEncoding = (None, Some er) \<longrightarrow>
        b = \<lparr>Encoding = [], Data = []\<rparr> \<and>
        s' = logger_Error ''Unable to encode visibility memo''
               [TagWorkflowDomainID domainID, TagWorkflowID wID, TagWorkflowRunID rID,
                TagError er] s)"
    using serializeMemo_heap[of v m domainID wID rID s]
    by (auto simp: serializeMemo_closed)
  show "\<exists>req s1. RecordWorkflowExecutionStarted v (Some r) s =
        Inr (store_RecordWorkflowExecutionStarted (persistence v) req s1) \<and>
      Memo_IS req \<noteq> None"
    unfolding RecordWorkflowExecutionStarted_def serializeMemo_closed option.case prod.case
    by (intro exI conjI, rule refl) simp
  show "\<exists>req s1. RecordWorkflowExecutionClosed v (Some rc) s =
        Inr (store_RecordWorkflowExecutionClosed (persistence v) req s1) \<and>
      Memo_IC req \<noteq> None"
    unfolding RecordWorkflowExecutionClosed_def serializeMemo_closed option.case prod.case
    by (intro exI conjI, rule refl) simp
  show "\<exists>req s1. UpsertWorkflowExecution v (Some ru) s =
        Inr (store_UpsertWorkflowExecution (persistence v) req s1) \<and>
      Memo_IU req \<noteq> None"
    unfolding UpsertWorkflowExecution_def serializeMemo_closed option.case prod.case
    by (intro exI conjI, rule refl) simp
qed

theorem serializeMemo_never_nil_witness:
  "(\<exists>s'. serializeMemo demo_manager (Some demo_memo) ''dom'' ''wf-2'' ''run-2'' demo_state =
       (Some \<lparr>Encoding = [], Data = []\<rparr>, s')) \<and>
   (\<exists>s'. serializeMemo demo_manager None ''dom'' ''wf-2'' ''run-2'' demo_state =
       (Some \<lparr>Encoding = [], Data = []\<rparr>, s')) \<and>
   (\<exists>s'. RecordWorkflowExecutionClosed demo_manager (Some demo_closing) demo_state =
       Inr (None, s'))"
proof -
  note a = serializeMemo_never_nil
      [of demo_manager "Some demo_memo" "''dom''" "''wf-2''" "''run-2''" demo_state
        demo_started demo_closing demo_upsert]
  note b = serializeMemo_never_nil
      [of demo_manager None "''dom''" "''wf-2''" "''run-2''" demo_state
        demo_started demo_closing demo_upsert]
  have 1: "\<exists>s'. serializeMemo demo_manager (Some demo_memo) ''dom'' ''wf-2'' ''run-2'' demo_state =
       (Some \<lparr>Encoding = [], Data = []\<rparr>, s')"
    using a by (auto simp: demo_manager_def demo_serializer_def demo_memo_def)
  have 2: "\<exists>s'. serializeMemo demo_manager None ''dom'' ''wf-2'' ''run-2'' demo_state =
       (Some \<lparr>Encoding = [], Data = []\<rparr>, s')"
    using b by (auto simp: demo_manager_def demo_serializer_def)
  have 3: "\<exists>s'. RecordWorkflowExecutionClosed demo_manager (Some demo_closing) demo_state =
       Inr (None, s')"
    using a by (auto simp: demo_manager_def demo_store_def)
  from 1 2 3 show ?thesis by (intro conjI)
qed

subsection \<open>The write operations\<close>

text \<open>
  Claim C7. \<open>RecordWorkflowExecutionStarted\<close> returns what the store returns for the
  internal request it builds, and that request carries the caller's domain UUID, workflow
  ID, run ID, workflow type name, start and execution timestamps, workflow timeout, task ID
  and search attributes. The store is called on a state whose records are those of the
  caller's state. The workflow and run IDs are read with the getters of the request's
  \<open>Execution\<close>.
\<close>

theorem RecordWorkflowExecutionStarted_forwards:
  "\<exists>req s1. RecordWorkflowExecutionStarted v (Some r) s =
       Inr (store_RecordWorkflowExecutionStarted (persistence v) req s1) \<and>
     heap s1 = heap s \<and>
     DomainUUID_IS req = DomainUUID_S r \<and>
     WorkflowID_IS req = GetWorkflowId (Execution_S r) \<and>
     RunID_IS req = GetRunId (Execution_S r) \<and>
     WorkflowTypeName_IS req = WorkflowTypeName_S r \<and>
     StartTimestamp_IS req = StartTimestamp_S r \<and>
     ExecutionTimestamp_IS req = ExecutionTimestamp_S r \<and>
     WorkflowTimeout_IS req = WorkflowTimeout_S r \<and>
     TaskID_IS req = TaskID_S r \<and>
     SearchAttributes_IS req = SearchAttributes_S r"
proof -
  obtain memo s1 where m: "serializeMemo v (Memo_S r) (DomainUUID_S r)
      (GetWorkflowId (Execution_S r)) (GetRunId (Execution_S r)) s = (memo, s1)"
    by (cases "serializeMemo v (Memo_S r) (DomainUUID_S r)
      (GetWorkflowId (Execution_S r)) (GetRunId (Execution_S r)) s")
  have h: "heap s1 = heap s"
    using serializeMemo_heap[of v "Memo_S r" "DomainUUID_S r"
        "GetWorkflowId (Execution_S r)" "GetRunId (Execution_S r)" s]
    by (simp add: m)
  show ?thesis
    unfolding RecordWorkflowExecutionStarted_def option.case m prod.case
    by (intro exI conjI, rule refl) (simp_all add: h)
qed

theorem RecordWorkflowExecutionStarted_forwards_witness:
  "\<exists>s1. RecordWorkflowExecutionStarted demo_manager (Some demo_started) demo_state =
          Inr (Some (GoError ''dom/wf-2/run-2''), s1) \<and>
     heap s1 = heap demo_state"
  using RecordWorkflowExecutionStarted_forwards[of demo_manager demo_started demo_state]
  by (auto simp: demo_manager_def demo_store_def demo_started_def GetWorkflowId_def GetRunId_def)

text \<open>
  Claim C4. When the serializer fails on the memo of a started, closed or upsert request,
  that is, returns an error and no blob, the operation logs
  \<open>Unable to encode visibility memo\<close> with the request's identifiers and the error,
  hands the store the request with an empty memo blob, and returns what the store returns:
  the failure alone never fails the write.
\<close>

theorem memo_failure_is_not_fatal:
  "(SerializeVisibilityMemo (serializer v) (Memo_S r) VisibilityEncoding = (None, Some er) \<longrightarrow>
      RecordWorkflowExecutionStarted v (Some r) s =
        Inr (store_RecordWorkflowExecutionStarted (persistence v)
               \<lparr>DomainUUID_IS = DomainUUID_S r,
                WorkflowID_IS = GetWorkflowId (Execution_S r),
                RunID_IS = GetRunId (Execution_S r),
                WorkflowTypeName_IS = WorkflowTypeName_S r,
                StartTimestamp_IS = StartTimestamp_S r,
                ExecutionTimestamp_IS = ExecutionTimestamp_S r,
                WorkflowTimeout_IS = WorkflowTimeout_S r,
                TaskID_IS = TaskID_S r,
                Memo_IS = Some \<lparr>Encoding = [], Data = []\<rparr>,
                SearchAttributes_IS = SearchAttributes_S r\<rparr>
               (logger_Error ''Unable to encode visibility memo''
                  [TagWorkflowDomainID (DomainUUID_S r),
                   TagWorkflowID (GetWorkflowId (Execution_S r)),
                   TagWorkflowRunID (GetRunId (Execution_S r)), TagError er] s))) \<and>
   (SerializeVisibilityMemo (serializer v) (Memo_C rc) VisibilityEncoding = (None, Some er) \<longrightarrow>
      RecordWorkflowExecutionClosed v (Some rc) s =
        Inr (store_RecordWorkflowExecutionClosed (persistence v)
               \<lparr>DomainUUID_IC = DomainUUID_C rc,
                WorkflowID_IC = GetWorkflowId (Execution_C rc),
                RunID_IC = GetRunId (Execution_C rc),
                WorkflowTypeName_IC = WorkflowTypeName_C rc,
                StartTimestamp_IC = StartTimestamp_C rc,
                ExecutionTimestamp_IC = ExecutionTimestamp_C rc,
                TaskID_IC = TaskID_C rc,
                Memo_IC = Some \<lparr>Encoding = [], Data = []\<rparr>,
                SearchAttributes_IC = SearchAttributes_C rc,
                CloseTimestamp_IC = CloseTimestamp_C rc,
                Status_IC = Status_C rc,
                HistoryLength_IC = HistoryLength_C rc,
                RetentionSeconds_IC = RetentionSeconds_C rc\<rparr>
               (logger_Error ''Unable to encode visibility memo''
                  [TagWorkflowDomainID (DomainUUID_C rc),
                   TagWorkflowID (GetWorkflowId (Execution_C rc)),
                   TagWorkflowRunID (GetRunId (Execution_C rc)), TagError er] s))) \<and>
   (SerializeVisibilityMemo (serializer v) (Memo_U ru) VisibilityEncoding = (None, Some er) \<longrightarrow>
      UpsertWorkflowExecution v (Some ru) s =
        Inr (store_UpsertWorkflowExecution (persistence v)
               \<lparr>DomainUUID_IU = DomainUUID_U ru,
                WorkflowID_IU = GetWorkflowId (Execution_U ru),
                RunID_IU = GetRunId (Execution_U ru),
                WorkflowTypeName_IU = WorkflowTypeName_U ru,
                StartTimestamp_IU = StartTimestamp_U ru,
                ExecutionTimestamp_IU = ExecutionTimestamp_U ru,
                TaskID_IU = TaskID_U ru,
                Memo_IU = Some \<lparr>Encoding = [], Data = []\<rparr>,
                SearchAttributes_IU = SearchAttributes_U ru\<rparr>
               (logger_Error ''Unable to encode visibility memo''
                  [TagWorkflowDomainID (DomainUUID_U ru),
                   TagWorkflowID (GetWorkflowId (Execution_U ru)),
                   TagWorkflowRunID (GetRunId (Execution_U ru)), TagError er] s)))"
  by (simp add: RecordWorkflowExecutionStarted_def RecordWorkflowExecutionClosed_def
        UpsertWorkflowExecution_def serializeMemo_closed)

theorem memo_failure_is_not_fatal_witness:
  "RecordWorkflowExecutionStarted demo_manager (Some demo_started) demo_state =
     Inr (Some (GoError ''dom/wf-2/run-2''), \<lparr>heap = heap demo_state, logs = [LogError ''Unable to encode visibility memo''
        [TagWorkflowDomainID ''dom'', TagWorkflowID ''wf-2'', TagWorkflowRunID ''run-2'',
         TagError (GoError ''cannot encode'')]]\<rparr>) \<and>
   RecordWorkflowExecutionClosed demo_manager (Some demo_closing) demo_state =
     Inr (None, \<lparr>heap = heap demo_state, logs = [LogError ''Unable to encode visibility memo''
        [TagWorkflowDomainID ''dom'', TagWorkflowID ''wf-2'', TagWorkflowRunID ''run-2'',
         TagError (GoError ''cannot encode'')]]\<rparr>) \<and>
   UpsertWorkflowExecution demo_manager (Some demo_upsert) demo_state =
     Inr (None, \<lparr>heap = heap demo_state, logs = [LogError ''Unable to encode visibility memo''
        [TagWorkflowDomainID ''dom'', TagWorkflowID ''wf-2'', TagWorkflowRunID ''run-2'',
         TagError (GoError ''cannot encode'')]]\<rparr>)"
  using memo_failure_is_not_fatal[of demo_manager demo_started "GoError ''cannot encode''"
      demo_state demo_closing demo_upsert]
  by (simp add: demo_manager_def demo_store_def demo_serializer_def demo_memo_def
        demo_started_def demo_closing_def demo_upsert_def demo_state_def
        GetWorkflowId_def GetRunId_def logger_Error_def)

subsection \<open>The list, scan and get operations\<close>

text \<open>
  Claim C5. Each of the nine list and scan operations meets \<open>list_contract\<close> for the
  answer of its store method, whatever orders the ranges over the search attributes draw:
  the store's error comes back unchanged with a nil response; otherwise the response has
  the page token of the store's response and, for each entry of the store's response and
  in the same order, the conversion of that entry with the order drawn for it. A store
  that returns neither an error nor a response gets a nil response without error.
\<close>

theorem list_operations_page_through:
  "list_contract jm v ords (store_ListOpenWorkflowExecutions (persistence v) r1 s)
     (ListOpenWorkflowExecutions jm v ords r1 s) \<and>
   list_contract jm v ords (store_ListClosedWorkflowExecutions (persistence v) r1 s)
     (ListClosedWorkflowExecutions jm v ords r1 s) \<and>
   list_contract jm v ords (store_ListOpenWorkflowExecutionsByType (persistence v) r2 s)
     (ListOpenWorkflowExecutionsByType jm v ords r2 s) \<and>
   list_contract jm v ords (store_ListClosedWorkflowExecutionsByType (persistence v) r2 s)
     (ListClosedWorkflowExecutionsByType jm v ords r2 s) \<and>
   list_contract jm v ords (store_ListOpenWorkflowExecutionsByWorkflowID (persistence v) r3 s)
     (ListOpenWorkflowExecutionsByWorkflowID jm v ords r3 s) \<and>
   list_contract jm v ords (store_ListClosedWorkflowExecutionsByWorkflowID (persistence v) r3 s)
     (ListClosedWorkflowExecutionsByWorkflowID jm v ords r3 s) \<and>
   list_contract jm v ords (store_ListClosedWorkflowExecutionsByStatus (persistence v) r4 s)
     (ListClosedWorkflowExecutionsByStatus jm v ords r4 s) \<and>
   list_contract jm v ords (store_ListWorkflowExecutions (persistence v) r5 s)
     (ListWorkflowExecutions jm v ords r5 s) \<and>
   list_contract jm v ords (store_ScanWorkflowExecutions (persistence v) r5 s)
     (ScanWorkflowExecutions jm v ords r5 s)"
  by (intro conjI list_contract_holds)
    (simp_all only: ListOpenWorkflowExecutions_def ListClosedWorkflowExecutions_def
      ListOpenWorkflowExecutionsByType_def ListClosedWorkflowExecutionsByType_def
      ListOpenWorkflowExecutionsByWorkflowID_def ListClosedWorkflowExecutionsByWorkflowID_def
      ListClosedWorkflowExecutionsByStatus_def ListWorkflowExecutions_def
      ScanWorkflowExecutions_def)

theorem list_operations_page_through_witness:
  "(\<exists>resp s2. ListOpenWorkflowExecutions demo_marshal demo_manager demo_draws () demo_state =
        Inr ((Some resp, None), s2) \<and> NextPageToken resp = [7] \<and> length (Executions resp) = 3) \<and>
   (\<exists>resp s2. ListClosedWorkflowExecutions demo_marshal demo_manager demo_draws () demo_state =
        Inr ((Some resp, None), s2) \<and> NextPageToken resp = [7] \<and> length (Executions resp) = 3) \<and>
   (\<exists>resp s2. ListOpenWorkflowExecutionsByType demo_marshal demo_manager demo_draws () demo_state =
        Inr ((Some resp, None), s2) \<and> NextPageToken resp = [7] \<and> length (Executions resp) = 3) \<and>
   (\<exists>resp s2. ListClosedWorkflowExecutionsByType demo_marshal demo_manager demo_draws () demo_state =
        Inr ((Some resp, None), s2) \<and> NextPageToken resp = [7] \<and> length (Executions resp) = 3) \<and>
   (\<exists>resp s2. ListOpenWorkflowExecutionsByWorkflowID demo_marshal demo_manager demo_draws () demo_state =
        Inr ((Some resp, None), s2) \<and> NextPageToken resp = [7] \<and> length (Executions resp) = 3) \<and>
   (\<exists>resp s2. ListClosedWorkflowExecutionsByWorkflowID demo_marshal demo_manager demo_draws () demo_state =
        Inr ((Some resp, None), s2) \<and> NextPageToken resp = [7] \<and> length (Executions resp) = 3) \<and>
   (\<exists>resp s2. ListClosedWorkflowExecutionsByStatus demo_marshal demo_manager demo_draws () demo_state =
        Inr ((Some resp, None), s2) \<and> NextPageToken resp = [7] \<and> length (Executions resp) = 3) \<and>
   (\<exists>resp s2. ListWorkflowExecutions demo_marshal demo_manager demo_draws () demo_state =
        Inr ((Some resp, None), s2) \<and> NextPageToken resp = [7] \<and> length (Executions resp) = 3) \<and>
   (\<exists>resp s2. ScanWorkflowExecutions demo_marshal demo_manager demo_draws () demo_state =
        Inr ((Some resp, None), s2) \<and> NextPageToken resp = [7] \<and> length (Executions resp) = 3)"
proof -
  have answers:
    "store_ListOpenWorkflowExecutions (persistence demo_manager) () demo_state =
       ((Some demo_response, None), demo_state)"
    "store_ListClosedWorkflowExecutions (persistence demo_manager) () demo_state =
       ((Some demo_response, None), demo_state)"
    "store_ListOpenWorkflowExecutionsByType (persistence demo_manager) () demo_state =
       ((Some demo_response, None), demo_state)"
    "store_ListClosedWorkflowExecutionsByType (persistence demo_manager) () demo_state =
       ((Some demo_response, None), demo_state)"
    "store_ListOpenWorkflowExecutionsByWorkflowID (persistence demo_manager) () demo_state =
       ((Some demo_response, None), demo_state)"
    "store_ListClosedWorkflowExecutionsByWorkflowID (persistence demo_manager) () demo_state =
       ((Some demo_response, None), demo_state)"
    "store_ListClosedWorkflowExecutionsByStatus (persistence demo_manager) () demo_state =
       ((Some demo_response, None), demo_state)"
    "store_ListWorkflowExecutions (persistence demo_manager) () demo_state =
       ((Some demo_response, None), demo_state)"
    "store_ScanWorkflowExecutions (persistence demo_manager) () demo_state =
       ((Some demo_response, None), demo_state)"
    by (simp_all add: demo_manager_def demo_store_def demo_list_def)
  from list_operations_page_through
    [of demo_marshal demo_manager demo_draws "()" demo_state "()" "()" "()" "()",
     unfolded answers]
  show ?thesis
    by (elim conjE) (intro conjI demo_contract; assumption)
qed

text \<open>
  Claim C2 fails on the code, on which search attributes are left out. A map with the
  attribute \<open>a\<close>, whose value does not marshal, and the attribute \<open>b\<close>, whose
  value does, gives two different responses, depending on the order in which the loop of
  \<open>getSearchAttributes\<close> visits it. The sample store answers
  \<open>ListOpenWorkflowExecutions\<close> with three entries, the first and the last of which
  are the same record. In the sample draws the range of the first entry visits \<open>a\<close>
  before \<open>b\<close> and the ranges of the other two visit \<open>b\<close> before \<open>a\<close>. The first
  entry comes back with search attributes, holding \<open>b\<close>; the other two, among
  them the same record again, come back with no search attributes at all: the error of
  \<open>a\<close> is forgotten when \<open>b\<close> follows, and decides when it comes last.
\<close>

theorem search_attributes_depend_on_order:
  "Executions_internal demo_response = [Some 0, Some 1, Some 0] \<and>
   SearchAttributes (heap demo_state 0) = [(''a'', 0), (''b'', 1)] \<and>
   SearchAttributes (heap demo_state 1) = [(''b'', 1), (''a'', 0)] \<and>
   demo_marshal 0 = ([], Some (GoError ''json: unsupported type'')) \<and>
   demo_marshal 1 = ([1], None) \<and>
   map demo_draws [0, 1, 2] =
     [[(''a'', 0), (''b'', 1)], [(''b'', 1), (''a'', 0)], [(''b'', 1), (''a'', 0)]] \<and>
   map (map_option SearchAttributes_info)
     (Executions (the (fst (fst (projr
        (ListOpenWorkflowExecutions demo_marshal demo_manager demo_draws () demo_state)))))) =
     [Some (Some \<lparr>IndexedFields = [''b'' \<mapsto> [1]]\<rparr>), Some None, Some None]"
proof -
  obtain s2 where
    "ListOpenWorkflowExecutions demo_marshal demo_manager demo_draws () demo_state =
          Inr ((Some \<lparr>Executions =
                        [Some (publicInfo demo_marshal demo_manager
                                 [(''a'', 0), (''b'', 1)] demo_open),
                         Some (publicInfo demo_marshal demo_manager
                                 [(''b'', 1), (''a'', 0)] demo_closed),
                         Some (publicInfo demo_marshal demo_manager
                                 [(''b'', 1), (''a'', 0)] demo_open)],
                      NextPageToken = [7]\<rparr>, None), s2)"
    using demo_list_run by blast
  then have "map (map_option SearchAttributes_info)
     (Executions (the (fst (fst (projr
        (ListOpenWorkflowExecutions demo_marshal demo_manager demo_draws () demo_state)))))) =
     [Some (Some \<lparr>IndexedFields = [''b'' \<mapsto> [1]]\<rparr>), Some None, Some None]"
    by (simp add: demo_searchAttributes del: One_nat_def)
  moreover have "SearchAttributes (heap demo_state 0) = [(''a'', 0), (''b'', 1)]"
    "SearchAttributes (heap demo_state 1) = [(''b'', 1), (''a'', 0)]"
    by (simp_all add: demo_state_def demo_open_def demo_closed_def)
  moreover have "demo_marshal 0 = ([], Some (GoError ''json: unsupported type''))"
    "demo_marshal 1 = ([1], None)"
    by (simp_all add: demo_marshal_def)
  moreover have "map demo_draws [0, 1, 2] =
     [[(''a'', 0), (''b'', 1)], [(''b'', 1), (''a'', 0)], [(''b'', 1), (''a'', 0)]]"
    by (simp add: demo_draws_def)
  moreover have "Executions_internal demo_response = [Some 0, Some 1, Some 0]"
    by (simp add: demo_response_def)
  ultimately show ?thesis by (intro conjI)
qed

text \<open>
  What the operations do keep of claim C2 in every run, whatever the orders drawn. Each of
  the nine list and scan operations meets \<open>list_degrades\<close>, and
  \<open>GetClosedWorkflowExecution\<close> meets \<open>get_degrades\<close>: the only error the operation
  returns is the store's, and every record of the store's answer is returned as
  \<open>degraded\<close> has it. When the memo fails to deserialize the failure is logged and
  the record carries what the deserializer handed back with its error, no memo when it
  handed back none; each search attribute that fails to marshal is logged and is not in
  the response; every other field is as without the failure.
\<close>

theorem visibility_degrades:
  "list_degrades jm v (store_ListOpenWorkflowExecutions (persistence v) r1 s)
     (ListOpenWorkflowExecutions jm v ords r1 s) \<and>
   list_degrades jm v (store_ListClosedWorkflowExecutions (persistence v) r1 s)
     (ListClosedWorkflowExecutions jm v ords r1 s) \<and>
   list_degrades jm v (store_ListOpenWorkflowExecutionsByType (persistence v) r2 s)
     (ListOpenWorkflowExecutionsByType jm v ords r2 s) \<and>
   list_degrades jm v (store_ListClosedWorkflowExecutionsByType (persistence v) r2 s)
     (ListClosedWorkflowExecutionsByType jm v ords r2 s) \<and>
   list_degrades jm v (store_ListOpenWorkflowExecutionsByWorkflowID (persistence v) r3 s)
     (ListOpenWorkflowExecutionsByWorkflowID jm v ords r3 s) \<and>
   list_degrades jm v (store_ListClosedWorkflowExecutionsByWorkflowID (persistence v) r3 s)
     (ListClosedWorkflowExecutionsByWorkflowID jm v ords r3 s) \<and>
   list_degrades jm v (store_ListClosedWorkflowExecutionsByStatus (persistence v) r4 s)
     (ListClosedWorkflowExecutionsByStatus jm v ords r4 s) \<and>
   list_degrades jm v (store_ListWorkflowExecutions (persistence v) r5 s)
     (ListWorkflowExecutions jm v ords r5 s) \<and>
   list_degrades jm v (store_ScanWorkflowExecutions (persistence v) r5 s)
     (ScanWorkflowExecutions jm v ords r5 s) \<and>
   get_degrades jm v (store_GetClosedWorkflowExecution (persistence v) r6 s)
     (GetClosedWorkflowExecution jm v ord r6 s)"
  by (intro conjI list_degrades_holds get_degrades_holds)
    (simp_all only: ListOpenWorkflowExecutions_def ListClosedWorkflowExecutions_def
      ListOpenWorkflowExecutionsByType_def ListClosedWorkflowExecutionsByType_def
      ListOpenWorkflowExecutionsByWorkflowID_def ListClosedWorkflowExecutionsByWorkflowID_def
      ListClosedWorkflowExecutionsByStatus_def ListWorkflowExecutions_def
      ScanWorkflowExecutions_def)

theorem visibility_degrades_witness:
  "(\<exists>resp s2 c. ListOpenWorkflowExecutions demo_marshal demo_manager demo_draws () demo_state =
        Inr ((Some resp, None), s2) \<and>
      length (Executions resp) = 3 \<and> Executions resp ! 1 = Some c \<and>
      Execution c = Some \<lparr>WorkflowId = ''wf-1'', RunId = ''run-1''\<rparr> \<and>
      Memo_info c = None \<and>
      LogError ''failed to deserialize memo''
        [TagWorkflowID ''wf-1'', TagWorkflowRunID ''run-1'',
         TagError (GoError ''unknown encoding'')] \<in> set (logs s2) \<and>
      LogError ''error when encode search attributes'' [TagValue 0] \<in> set (logs s2)) \<and>
   (\<exists>resp s2 c. ListClosedWorkflowExecutions demo_marshal demo_manager demo_draws () demo_state =
        Inr ((Some resp, None), s2) \<and>
      length (Executions resp) = 3 \<and> Executions resp ! 1 = Some c \<and>
      Execution c = Some \<lparr>WorkflowId = ''wf-1'', RunId = ''run-1''\<rparr> \<and>
      Memo_info c = None \<and>
      LogError ''failed to deserialize memo''
        [TagWorkflowID ''wf-1'', TagWorkflowRunID ''run-1'',
         TagError (GoError ''unknown encoding'')] \<in> set (logs s2) \<and>
      LogError ''error when encode search attributes'' [TagValue 0] \<in> set (logs s2)) \<and>
   (\<exists>resp s2 c. ListOpenWorkflowExecutionsByType demo_marshal demo_manager demo_draws () demo_state =
        Inr ((Some resp, None), s2) \<and>
      length (Executions resp) = 3 \<and> Executions resp ! 1 = Some c \<and>
      Execution c = Some \<lparr>WorkflowId = ''wf-1'', RunId = ''run-1''\<rparr> \<and>
      Memo_info c = None \<and>
      LogError ''failed to deserialize memo''
        [TagWorkflowID ''wf-1'', TagWorkflowRunID ''run-1'',
         TagError (GoError ''unknown encoding'')] \<in> set (logs s2) \<and>
      LogError ''error when encode search attributes'' [TagValue 0] \<in> set (logs s2)) \<and>
   (\<exists>resp s2 c. ListClosedWorkflowExecutionsByType demo_marshal demo_manager demo_draws () demo_state =
        Inr ((Some resp, None), s2) \<and>
      length (Executions resp) = 3 \<and> Executions resp ! 1 = Some c \<and>
      Execution c = Some \<lparr>WorkflowId = ''wf-1'', RunId = ''run-1''\<rparr> \<and>
      Memo_info c = None \<and>
      LogError ''failed to deserialize memo''
        [TagWorkflowID ''wf-1'', TagWorkflowRunID ''run-1'',
         TagError (GoError ''unknown encoding'')] \<in> set (logs s2) \<and>
      LogError ''error when encode search attributes'' [TagValue 0] \<in> set (logs s2)) \<and>
   (\<exists>resp s2 c. ListOpenWorkflowExecutionsByWorkflowID demo_marshal demo_manager demo_draws () demo_state =
        Inr ((Some resp, None), s2) \<and>
      length (Executions resp) = 3 \<and> Executions resp ! 1 = Some c \<and>
      Execution c = Some \<lparr>WorkflowId = ''wf-1'', RunId = ''run-1''\<rparr> \<and>
      Memo_info c = None \<and>
      LogError ''failed to deserialize memo''
        [TagWorkflowID ''wf-1'', TagWorkflowRunID ''run-1'',
         TagError (GoError ''unknown encoding'')] \<in> set (logs s2) \<and>
      LogError ''error when encode search attributes'' [TagValue 0] \<in> set (logs s2)) \<and>
   (\<exists>resp s2 c. ListClosedWorkflowExecutionsByWorkflowID demo_marshal demo_manager demo_draws () demo_state =
        Inr ((Some resp, None), s2) \<and>
      length (Executions resp) = 3 \<and> Executions resp ! 1 = Some c \<and>
      Execution c = Some \<lparr>WorkflowId = ''wf-1'', RunId = ''run-1''\<rparr> \<and>
      Memo_info c = None \<and>
      LogError ''failed to deserialize memo''
        [TagWorkflowID ''wf-1'', TagWorkflowRunID ''run-1'',
         TagError (GoError ''unknown encoding'')] \<in> set (logs s2) \<and>
      LogError ''error when encode search attributes'' [TagValue 0] \<in> set (logs s2)) \<and>
   (\<exists>resp s2 c. ListClosedWorkflowExecutionsByStatus demo_marshal demo_manager demo_draws () demo_state =
        Inr ((Some resp, None), s2) \<and>
      length (Executions resp) = 3 \<and> Executions resp ! 1 = Some c \<and>
      Execution c = Some \<lparr>WorkflowId = ''wf-1'', RunId = ''run-1''\<rparr> \<and>
      Memo_info c = None \<and>
      LogError ''failed to deserialize memo''
        [TagWorkflowID ''wf-1'', TagWorkflowRunID ''run-1'',
         TagError (GoError ''unknown encoding'')] \<in> set (logs s2) \<and>
      LogError ''error when encode search attributes'' [TagValue 0] \<in> set (logs s2)) \<and>
   (\<exists>resp s2 c. ListWorkflowExecutions demo_marshal demo_manager demo_draws () demo_state =
        Inr ((Some resp, None), s2) \<and>
      length (Executions resp) = 3 \<and> Executions resp ! 1 = Some c \<and>
      Execution c = Some \<lparr>WorkflowId = ''wf-1'', RunId = ''run-1''\<rparr> \<and>
      Memo_info c = None \<and>
      LogError ''failed to deserialize memo''
        [TagWorkflowID ''wf-1'', TagWorkflowRunID ''run-1'',
         TagError (GoError ''unknown encoding'')] \<in> set (logs s2) \<and>
      LogError ''error when encode search attributes'' [TagValue 0] \<in> set (logs s2)) \<and>
   (\<exists>resp s2 c. ScanWorkflowExecutions demo_marshal demo_manager demo_draws () demo_state =
        Inr ((Some resp, None), s2) \<and>
      length (Executions resp) = 3 \<and> Executions resp ! 1 = Some c \<and>
      Execution c = Some \<lparr>WorkflowId = ''wf-1'', RunId = ''run-1''\<rparr> \<and>
      Memo_info c = None \<and>
      LogError ''failed to deserialize memo''
        [TagWorkflowID ''wf-1'', TagWorkflowRunID ''run-1'',
         TagError (GoError ''unknown encoding'')] \<in> set (logs s2) \<and>
      LogError ''error when encode search attributes'' [TagValue 0] \<in> set (logs s2)) \<and>
   (\<exists>resp s2 c. GetClosedWorkflowExecution demo_marshal demo_manager (demo_draws 1) () demo_state =
        Inr ((Some resp, None), s2) \<and>
      Execution_closed resp = Some c \<and>
      Execution c = Some \<lparr>WorkflowId = ''wf-1'', RunId = ''run-1''\<rparr> \<and>
      Memo_info c = None \<and>
      LogError ''failed to deserialize memo''
        [TagWorkflowID ''wf-1'', TagWorkflowRunID ''run-1'',
         TagError (GoError ''unknown encoding'')] \<in> set (logs s2) \<and>
      LogError ''error when encode search attributes'' [TagValue 0] \<in> set (logs s2))"
proof -
  have answers:
    "store_ListOpenWorkflowExecutions (persistence demo_manager) () demo_state =
       ((Some demo_response, None), demo_state)"
    "store_ListClosedWorkflowExecutions (persistence demo_manager) () demo_state =
       ((Some demo_response, None), demo_state)"
    "store_ListOpenWorkflowExecutionsByType (persistence demo_manager) () demo_state =
       ((Some demo_response, None), demo_state)"
    "store_ListClosedWorkflowExecutionsByType (persistence demo_manager) () demo_state =
       ((Some demo_response, None), demo_state)"
    "store_ListOpenWorkflowExecutionsByWorkflowID (persistence demo_manager) () demo_state =
       ((Some demo_response, None), demo_state)"
    "store_ListClosedWorkflowExecutionsByWorkflowID (persistence demo_manager) () demo_state =
       ((Some demo_response, None), demo_state)"
    "store_ListClosedWorkflowExecutionsByStatus (persistence demo_manager) () demo_state =
       ((Some demo_response, None), demo_state)"
    "store_ListWorkflowExecutions (persistence demo_manager) () demo_state =
       ((Some demo_response, None), demo_state)"
    "store_ScanWorkflowExecutions (persistence demo_manager) () demo_state =
       ((Some demo_response, None), demo_state)"
    "store_GetClosedWorkflowExecution (persistence demo_manager) () demo_state =
       ((Some \<lparr>Execution_internal = Some 1\<rparr>, None), demo_state)"
    by (simp_all add: demo_manager_def demo_store_def demo_list_def)
  from visibility_degrades
    [of demo_marshal demo_manager "()" demo_state demo_draws "()" "()" "()" "()" "()"
       "demo_draws 1", unfolded answers]
  show ?thesis
    by (elim conjE) (intro conjI demo_degrades demo_get_degrades; assumption)
qed

end
